theory Spec2Isabelle
  imports Main "HOL-Library.Word"
begin

unbundle bit_operations_syntax

section \<open>Go values and the standard library the receiver calls\<close>

text \<open>
  The receiver of \<^verbatim>\<open>trace_receiver.go\<close> is pure apart from logging, the random
  source and the HTTP plumbing. A Go \<^verbatim>\<open>string\<close> is a byte sequence and is modelled as
  \<^typ>\<open>string\<close>; a \<^verbatim>\<open>[]byte\<close> or a byte array is a list of 8-bit words;
  \<^verbatim>\<open>int64\<close> and (on the 64-bit platforms the collector is built for) \<^verbatim>\<open>int\<close> are
  64-bit words read as two's complement. A function that returns \<^verbatim>\<open>(T, error)\<close>
  returns \<open>go_error + T\<close>; a run-time panic is the error \<open>Panic\<close>, which no caller
  can discard.
\<close>

type_synonym byte = "8 word"
type_synonym int64 = "64 word"

datatype go_error =
    Panic string
  | InvalidByteError char
  | ErrLength
  | Errorf string
  | UnmarshalError string

definition bytes :: "string \<Rightarrow> byte list" where
  \<comment> \<open>the conversion \<^verbatim>\<open>[]byte(s)\<close>\<close>
  "bytes s = map of_char s"

subsection \<open>\<^verbatim>\<open>fmt.Sprintf("%d", n)\<close>\<close>

function digits :: "nat \<Rightarrow> string" where
  "digits n = (if n < 10 then [''0123456789'' ! n] else digits (n div 10) @ [''0123456789'' ! (n mod 10)])"
  by pat_completeness auto
termination
  by (relation "measure (\<lambda>n. n)") auto

declare digits.simps [simp del]

definition decimal :: "int64 \<Rightarrow> string" where
  "decimal n = (if sint n < 0 then CHR ''-'' # digits (nat (- sint n)) else digits (nat (sint n)))"

subsection \<open>\<^verbatim>\<open>encoding/hex\<close>\<close>

definition hextable :: string where
  "hextable = ''0123456789abcdef''"

definition hex_EncodeToString :: "byte list \<Rightarrow> string" where
  "hex_EncodeToString src =
     concat (map (\<lambda>v. [hextable ! unat (drop_bit 4 v), hextable ! unat (v AND 0x0f)]) src)"

definition fromHexChar :: "char \<Rightarrow> byte option" where
  \<comment> \<open>the reverse table of the package: digits, \<^verbatim>\<open>a-f\<close> and \<^verbatim>\<open>A-F\<close>\<close>
  "fromHexChar c =
     (let n = (of_char c :: nat) in
      if 48 \<le> n \<and> n \<le> 57 then Some (of_nat (n - 48))
      else if 97 \<le> n \<and> n \<le> 102 then Some (of_nat (n - 87))
      else if 65 \<le> n \<and> n \<le> 70 then Some (of_nat (n - 55))
      else None)"

text \<open>
  \<^verbatim>\<open>hex.Decode(dst, src)\<close> walks over \<open>src\<close> two characters at a time and stores one
  byte per pair at the next index of \<open>dst\<close>; an index beyond \<open>dst\<close> panics. The first
  argument below is the part of \<open>dst\<close> not written yet, the result is the bytes written
  followed by the untouched rest of \<open>dst\<close>.
\<close>

fun hex_Decode :: "byte list \<Rightarrow> string \<Rightarrow> go_error + byte list" where
  "hex_Decode dst [] = Inr dst"
| "hex_Decode dst [p] =
     (case fromHexChar p of None \<Rightarrow> Inl (InvalidByteError p) | Some _ \<Rightarrow> Inl ErrLength)"
| "hex_Decode dst (p # q # src) =
     (case fromHexChar p of
        None \<Rightarrow> Inl (InvalidByteError p)
      | Some a \<Rightarrow>
          (case fromHexChar q of
             None \<Rightarrow> Inl (InvalidByteError q)
           | Some b \<Rightarrow>
               (case dst of
                  [] \<Rightarrow> Inl (Panic ''index out of range'')
                | _ # dst' \<Rightarrow>
                    (case hex_Decode dst' src of
                       Inl e \<Rightarrow> Inl e
                     | Inr rest \<Rightarrow> Inr ((push_bit 4 a OR b) # rest)))))"

subsection \<open>\<^verbatim>\<open>crypto/sha256\<close>, \<^verbatim>\<open>crypto/sha1\<close> and \<^verbatim>\<open>crypto/hmac\<close>\<close>

text \<open>
  The two hash functions follow FIPS 180-4. The 32-bit words of the compression
  functions are integers below \<open>2 ^ 32\<close> with the wrap-around of the additions
  written out; the message schedule is kept as a window of sixteen words.
\<close>

definition add32 :: "int \<Rightarrow> int \<Rightarrow> int" where
  "add32 x y = (x + y) mod 4294967296"

definition rotr :: "nat \<Rightarrow> int \<Rightarrow> int" where
  "rotr n x = x div 2 ^ n + (x mod 2 ^ n) * 2 ^ (32 - n)"

definition rotl :: "nat \<Rightarrow> int \<Rightarrow> int" where
  "rotl n x = rotr (32 - n) x"

definition ch :: "int \<Rightarrow> int \<Rightarrow> int \<Rightarrow> int" where
  "ch x y z = (x AND y) XOR ((4294967295 - x) AND z)"

definition maj :: "int \<Rightarrow> int \<Rightarrow> int \<Rightarrow> int" where
  "maj x y z = (x AND y) XOR (x AND z) XOR (y AND z)"

definition parity :: "int \<Rightarrow> int \<Rightarrow> int \<Rightarrow> int" where
  "parity x y z = x XOR y XOR z"

fun words_of :: "byte list \<Rightarrow> int list" where
  "words_of (b0 # b1 # b2 # b3 # bs) =
     (uint b0 * 16777216 + uint b1 * 65536 + uint b2 * 256 + uint b3) # words_of bs"
| "words_of bs = []"

definition bytes_of_u32 :: "int \<Rightarrow> byte list" where
  "bytes_of_u32 w = [of_int (w div 16777216 mod 256), of_int (w div 65536 mod 256),
     of_int (w div 256 mod 256), of_int (w mod 256)]"

definition bytes_of_u64 :: "int \<Rightarrow> byte list" where
  "bytes_of_u64 w = bytes_of_u32 (w div 4294967296 mod 4294967296) @ bytes_of_u32 (w mod 4294967296)"

definition pad :: "byte list \<Rightarrow> byte list" where
  "pad m = m @ [0x80] @ replicate ((119 - length m mod 64) mod 64) 0
             @ bytes_of_u64 (8 * int (length m))"

type_synonym sha256_state = "int \<times> int \<times> int \<times> int \<times> int \<times> int \<times> int \<times> int"

text \<open>The sixty-four round constants, eight to a row.\<close>

definition K256 :: "int list" where
  "K256 =
     [0x428a2f98, 0x71374491, 0xb5c0fbcf, 0xe9b5dba5, 0x3956c25b, 0x59f111f1, 0x923f82a4, 0xab1c5ed5]
   @ [0xd807aa98, 0x12835b01, 0x243185be, 0x550c7dc3, 0x72be5d74, 0x80deb1fe, 0x9bdc06a7, 0xc19bf174]
   @ [0xe49b69c1, 0xefbe4786, 0x0fc19dc6, 0x240ca1cc, 0x2de92c6f, 0x4a7484aa, 0x5cb0a9dc, 0x76f988da]
   @ [0x983e5152, 0xa831c66d, 0xb00327c8, 0xbf597fc7, 0xc6e00bf3, 0xd5a79147, 0x06ca6351, 0x14292967]
   @ [0x27b70a85, 0x2e1b2138, 0x4d2c6dfc, 0x53380d13, 0x650a7354, 0x766a0abb, 0x81c2c92e, 0x92722c85]
   @ [0xa2bfe8a1, 0xa81a664b, 0xc24b8b70, 0xc76c51a3, 0xd192e819, 0xd6990624, 0xf40e3585, 0x106aa070]
   @ [0x19a4c116, 0x1e376c08, 0x2748774c, 0x34b0bcb5, 0x391c0cb3, 0x4ed8aa4a, 0x5b9cca4f, 0x682e6ff3]
   @ [0x748f82ee, 0x78a5636f, 0x84c87814, 0x8cc70208, 0x90befffa, 0xa4506ceb, 0xbef9a3f7, 0xc67178f2]"

definition H256 :: sha256_state where
  "H256 = (0x6a09e667, 0xbb67ae85, 0x3c6ef372, 0xa54ff53a,
           0x510e527f, 0x9b05688c, 0x1f83d9ab, 0x5be0cd19)"

definition ssig0 :: "int \<Rightarrow> int" where "ssig0 x = rotr 7 x XOR rotr 18 x XOR x div 2 ^ 3"
definition ssig1 :: "int \<Rightarrow> int" where "ssig1 x = rotr 17 x XOR rotr 19 x XOR x div 2 ^ 10"
definition bsig0 :: "int \<Rightarrow> int" where "bsig0 x = rotr 2 x XOR rotr 13 x XOR rotr 22 x"
definition bsig1 :: "int \<Rightarrow> int" where "bsig1 x = rotr 6 x XOR rotr 11 x XOR rotr 25 x"

fun slide256 :: "int list \<Rightarrow> int list" where
  "slide256 [w0, w1, w2, w3, w4, w5, w6, w7, w8, w9, w10, w11, w12, w13, w14, w15] =
     [w1, w2, w3, w4, w5, w6, w7, w8, w9, w10, w11, w12, w13, w14, w15,
      add32 (add32 (ssig1 w14) w9) (add32 (ssig0 w1) w0)]"
| "slide256 ws = ws"

fun round256 :: "sha256_state \<Rightarrow> int \<Rightarrow> int \<Rightarrow> sha256_state" where
  "round256 (a, b, c, d, e, f, g, h) k w =
     (let t1 = add32 (add32 (add32 h (bsig1 e)) (add32 (ch e f g) k)) w;
          t2 = add32 (bsig0 a) (maj a b c)
      in (add32 t1 t2, a, b, c, add32 d t1, e, f, g))"

fun rounds256 :: "int list \<Rightarrow> int list \<Rightarrow> sha256_state \<Rightarrow> sha256_state" where
  "rounds256 [] ws s = s"
| "rounds256 (k # ks) ws s = rounds256 ks (slide256 ws) (round256 s k (hd ws))"

fun add_state256 :: "sha256_state \<Rightarrow> sha256_state \<Rightarrow> sha256_state" where
  "add_state256 (a, b, c, d, e, f, g, h) (a', b', c', d', e', f', g', h') =
     (add32 a a', add32 b b', add32 c c', add32 d d',
      add32 e e', add32 f f', add32 g g', add32 h h')"

definition block256 :: "sha256_state \<Rightarrow> byte list \<Rightarrow> sha256_state" where
  "block256 s p = add_state256 s (rounds256 K256 (words_of p) s)"

function blocks256 :: "sha256_state \<Rightarrow> byte list \<Rightarrow> sha256_state" where
  "blocks256 s p =
     (if length p < 64 then s else blocks256 (block256 s (take 64 p)) (drop 64 p))"
  by pat_completeness auto
termination
  by (relation "measure (\<lambda>(s, p). length p)") auto

declare blocks256.simps [simp del]

fun digest256 :: "sha256_state \<Rightarrow> byte list" where
  "digest256 (a, b, c, d, e, f, g, h) = concat (map bytes_of_u32 [a, b, c, d, e, f, g, h])"

definition sha256_Sum256 :: "byte list \<Rightarrow> byte list" where
  "sha256_Sum256 m = digest256 (blocks256 H256 (pad m))"

type_synonym sha1_state = "int \<times> int \<times> int \<times> int \<times> int"

definition H1 :: sha1_state where
  "H1 = (0x67452301, 0xefcdab89, 0x98badcfe, 0x10325476, 0xc3d2e1f0)"

definition rounds1_table :: "((int \<Rightarrow> int \<Rightarrow> int \<Rightarrow> int) \<times> int) list" where
  "rounds1_table = replicate 20 (ch, 0x5a827999) @ replicate 20 (parity, 0x6ed9eba1)
                 @ replicate 20 (maj, 0x8f1bbcdc) @ replicate 20 (parity, 0xca62c1d6)"

fun slide1 :: "int list \<Rightarrow> int list" where
  "slide1 [w0, w1, w2, w3, w4, w5, w6, w7, w8, w9, w10, w11, w12, w13, w14, w15] =
     [w1, w2, w3, w4, w5, w6, w7, w8, w9, w10, w11, w12, w13, w14, w15,
      rotl 1 (w13 XOR w8 XOR w2 XOR w0)]"
| "slide1 ws = ws"

fun round1 :: "sha1_state \<Rightarrow> (int \<Rightarrow> int \<Rightarrow> int \<Rightarrow> int) \<times> int \<Rightarrow> int \<Rightarrow> sha1_state" where
  "round1 (a, b, c, d, e) (f, k) w =
     (add32 (add32 (add32 (rotl 5 a) (f b c d)) (add32 e k)) w, a, rotl 30 b, c, d)"

fun rounds1 :: "((int \<Rightarrow> int \<Rightarrow> int \<Rightarrow> int) \<times> int) list \<Rightarrow> int list \<Rightarrow> sha1_state \<Rightarrow> sha1_state" where
  "rounds1 [] ws s = s"
| "rounds1 (fk # fks) ws s = rounds1 fks (slide1 ws) (round1 s fk (hd ws))"

fun add_state1 :: "sha1_state \<Rightarrow> sha1_state \<Rightarrow> sha1_state" where
  "add_state1 (a, b, c, d, e) (a', b', c', d', e') =
     (add32 a a', add32 b b', add32 c c', add32 d d', add32 e e')"

definition block1 :: "sha1_state \<Rightarrow> byte list \<Rightarrow> sha1_state" where
  "block1 s p = add_state1 s (rounds1 rounds1_table (words_of p) s)"

function blocks1 :: "sha1_state \<Rightarrow> byte list \<Rightarrow> sha1_state" where
  "blocks1 s p = (if length p < 64 then s else blocks1 (block1 s (take 64 p)) (drop 64 p))"
  by pat_completeness auto
termination
  by (relation "measure (\<lambda>(s, p). length p)") auto

declare blocks1.simps [simp del]

fun digest1 :: "sha1_state \<Rightarrow> byte list" where
  "digest1 (a, b, c, d, e) = concat (map bytes_of_u32 [a, b, c, d, e])"

definition sha1_Sum :: "byte list \<Rightarrow> byte list" where
  "sha1_Sum m = digest1 (blocks1 H1 (pad m))"

text \<open>
  \<^verbatim>\<open>hmac.New(h, key)\<close>, \<^verbatim>\<open>Write(body)\<close>, \<^verbatim>\<open>Sum(nil)\<close> (RFC 2104, block size 64 for
  both hashes), and \<^verbatim>\<open>hmac.Equal\<close>, which is equality of the two byte strings
  computed in constant time.
\<close>

definition hmac_Sum :: "(byte list \<Rightarrow> byte list) \<Rightarrow> byte list \<Rightarrow> byte list \<Rightarrow> byte list" where
  "hmac_Sum h key body =
     (let k0 = (if 64 < length key then h key else key);
          k = k0 @ replicate (64 - length k0) 0
      in h (map (\<lambda>b. b XOR 0x5c) k @ h (map (\<lambda>b. b XOR 0x36) k @ body)))"

definition hmac_Equal :: "string \<Rightarrow> string \<Rightarrow> bool" where
  "hmac_Equal mac1 mac2 = (mac1 = mac2)"

definition strings_HasPrefix :: "string \<Rightarrow> string \<Rightarrow> bool" where
  "strings_HasPrefix s prefix = (take (length prefix) s = prefix)"

definition strings_ReplaceAll1 :: "string \<Rightarrow> char \<Rightarrow> char \<Rightarrow> string" where
  \<comment> \<open>\<^verbatim>\<open>strings.ReplaceAll\<close> for a pattern and a replacement of one character each\<close>
  "strings_ReplaceAll1 s old new = map (\<lambda>c. if c = old then new else c) s"

definition unicode_ToLower_Map :: "string \<Rightarrow> string" where
  \<comment> \<open>\<^verbatim>\<open>strings.Map(unicode.ToLower, s)\<close>, which \<^verbatim>\<open>strings.ToLower\<close> falls back to for a
      string with a byte outside ASCII. The tables of package \<^verbatim>\<open>unicode\<close> are not
      modelled: the value is a string that is left unspecified.\<close>
  "unicode_ToLower_Map = undefined"

definition strings_ToLower :: "string \<Rightarrow> string" where
  \<comment> \<open>for a string of ASCII bytes only, the letters \<^verbatim>\<open>A-Z\<close> are mapped to \<^verbatim>\<open>a-z\<close> and
      every other byte is kept\<close>
  "strings_ToLower s =
     (if list_all (\<lambda>c. (of_char c :: nat) < 128) s
      then map (\<lambda>c. if 65 \<le> (of_char c :: nat) \<and> (of_char c :: nat) \<le> 90
                     then char_of ((of_char c :: nat) + 32) else c) s
      else unicode_ToLower_Map s)"

definition slice_from :: "nat \<Rightarrow> string \<Rightarrow> go_error + string" where
  \<comment> \<open>the slice expression \<^verbatim>\<open>s[n:]\<close>, which panics when \<open>n\<close> exceeds the length\<close>
  "slice_from n s =
     (if length s < n then Inl (Panic ''slice bounds out of range'') else Inr (drop n s))"

definition slice_range :: "nat \<Rightarrow> nat \<Rightarrow> string \<Rightarrow> go_error + string" where
  \<comment> \<open>the slice expression \<^verbatim>\<open>s[lo:hi]\<close> for constants \<open>lo \<le> hi\<close>\<close>
  "slice_range lo hi s =
     (if length s < hi then Inl (Panic ''slice bounds out of range'')
      else Inr (take (hi - lo) (drop lo s)))"

definition discard_error :: "'a \<Rightarrow> go_error + 'a \<Rightarrow> go_error + 'a" where
  \<comment> \<open>the assignment \<^verbatim>\<open>v, _ := f()\<close>: the error is dropped and \<open>v\<close> is what \<open>f\<close>
      returned beside it (the zero value \<open>z\<close> in this file); a panic is not an error value\<close>
  "discard_error z r =
     (case r of Inl (Panic m) \<Rightarrow> Inl (Panic m) | Inl _ \<Rightarrow> Inr z | Inr v \<Rightarrow> Inr v)"

section \<open>The data model\<close>

text \<open>
  The event structures carry the fields that the receiver reads. A \<^verbatim>\<open>time.Time\<close> is
  represented by its \<^verbatim>\<open>UnixNano()\<close> reading, which is all that
  \<^verbatim>\<open>pcommon.NewTimestampFromTime\<close> uses.
\<close>

type_synonym Time = int64

record Step =
  step_Name :: string
  step_Status :: string
  step_Conclusion :: string
  step_StartedAt :: Time
  step_CompletedAt :: Time

record Owner =
  Login :: string

record Repository =
  FullName :: string
  Owner :: Owner

record WorkflowJob =
  job_ID :: int64
  job_RunID :: int64
  job_RunAttempt :: int64
  job_Name :: string
  job_Status :: string
  job_Steps :: "Step list"
  job_HeadBranch :: string
  job_HeadSha :: string
  job_RunnerName :: string
  job_WorkflowName :: string
  job_CreatedAt :: Time
  job_CompletedAt :: Time

record WorkflowJobEvent =
  WorkflowJob :: WorkflowJob
  job_Repository :: Repository

record WorkflowRun =
  run_ID :: int64
  run_RunAttempt :: int64
  run_Name :: string
  run_Path :: string
  run_Status :: string
  run_Conclusion :: string
  run_HeadBranch :: string
  run_HeadSha :: string
  run_RunStartedAt :: Time
  run_UpdatedAt :: Time
  run_Repository :: Repository

record WorkflowRunEvent =
  WorkflowRun :: WorkflowRun
  runevent_Repository :: Repository

datatype Event =
    JobEvent WorkflowJobEvent
  | RunEvent WorkflowRunEvent
  | OtherEvent

record Config =
  Path :: string
  Secret :: string
  CustomServiceName :: string
  ServiceNamePrefix :: string
  ServiceNameSuffix :: string

subsection \<open>\<^verbatim>\<open>pdata\<close>: traces, spans and attribute maps\<close>

type_synonym TraceID = "byte list"
type_synonym SpanID = "byte list"

datatype StatusCode = StatusCodeUnset | StatusCodeOk | StatusCodeError

datatype SpanKind = SpanKindUnspecified | SpanKindServer

datatype Value = ValueStr string | ValueInt int64

record Span =
  span_TraceID :: TraceID
  span_SpanID :: SpanID
  span_ParentSpanID :: SpanID
  span_Name :: string
  span_Kind :: SpanKind
  span_StartTimestamp :: "64 word"
  span_EndTimestamp :: "64 word"
  span_StatusCode :: StatusCode
  span_StatusMessage :: string

record ScopeSpans =
  Spans :: "Span list"

record ResourceSpans =
  Resource :: "(string \<times> Value) list"
  ScopeSpansOf :: "ScopeSpans list"

type_synonym Traces = "ResourceSpans list"

definition zeroTraceID :: TraceID where
  "zeroTraceID = replicate 16 0"

definition zeroSpanID :: SpanID where
  "zeroSpanID = replicate 8 0"

definition emptySpan :: Span where
  \<comment> \<open>what \<^verbatim>\<open>Spans().AppendEmpty()\<close> appends\<close>
  "emptySpan = \<lparr>span_TraceID = zeroTraceID, span_SpanID = zeroSpanID,
     span_ParentSpanID = zeroSpanID, span_Name = [], span_Kind = SpanKindUnspecified,
     span_StartTimestamp = 0, span_EndTimestamp = 0, span_StatusCode = StatusCodeUnset,
     span_StatusMessage = []\<rparr>"

definition emptyScopeSpans :: ScopeSpans where
  "emptyScopeSpans = \<lparr>Spans = []\<rparr>"

fun Put :: "string \<Rightarrow> Value \<Rightarrow> (string \<times> Value) list \<Rightarrow> (string \<times> Value) list" where
  "Put k v [] = [(k, v)]"
| "Put k v ((k', v') # m) = (if k' = k then (k, v) # m else (k', v') # Put k v m)"

definition PutStr :: "string \<Rightarrow> string \<Rightarrow> (string \<times> Value) list \<Rightarrow> (string \<times> Value) list" where
  "PutStr k s m = Put k (ValueStr s) m"

definition PutInt :: "string \<Rightarrow> int64 \<Rightarrow> (string \<times> Value) list \<Rightarrow> (string \<times> Value) list" where
  "PutInt k i m = Put k (ValueInt i) m"

definition SpanCount :: "Traces \<Rightarrow> nat" where
  "SpanCount td = sum_list (map (\<lambda>rs. sum_list (map (\<lambda>ss. length (Spans ss)) (ScopeSpansOf rs))) td)"

definition all_spans :: "Traces \<Rightarrow> Span list" where
  "all_spans td = concat (map (\<lambda>rs. concat (map Spans (ScopeSpansOf rs))) td)"

section \<open>The receiver\<close>

text \<open>
  The functions below follow \<^verbatim>\<open>trace_receiver.go\<close> one by one. Logging is left out.
  Objects that the Go code mutates through a handle (a span appended to a
  \<^verbatim>\<open>ScopeSpans\<close>, attributes put into a resource) are passed in and returned. The
  identifier functions take the hex decoder they call as their first argument; the
  receiver itself runs them with \<^const>\<open>hex_Decode\<close>.
\<close>

type_synonym hex_decoder = "byte list \<Rightarrow> string \<Rightarrow> go_error + byte list"

text \<open>The random source: the outcome of the \<open>n\<close>-th read of eight bytes.\<close>

type_synonym rand_Reader = "nat \<Rightarrow> byte list option"

subsection \<open>Identifiers\<close>

definition generateTraceID :: "hex_decoder \<Rightarrow> int64 \<Rightarrow> int64 \<Rightarrow> go_error + TraceID" where
  "generateTraceID dec runID runAttempt =
     (let input = decimal runID @ decimal runAttempt @ ''t'';
          hash = sha256_Sum256 (bytes input);
          traceIDHex = hex_EncodeToString hash
      in case slice_range 0 32 traceIDHex of
           Inl p \<Rightarrow> Inl p
         | Inr src \<Rightarrow>
             (case dec zeroTraceID src of
                Inl err \<Rightarrow> Inl err
              | Inr traceID \<Rightarrow> Inr traceID))"

definition generateJobSpanID :: "hex_decoder \<Rightarrow> int64 \<Rightarrow> int64 \<Rightarrow> string \<Rightarrow> go_error + SpanID" where
  "generateJobSpanID dec runID runAttempt job =
     (let input = decimal runID @ decimal runAttempt @ job;
          hash = sha256_Sum256 (bytes input);
          spanIDHex = hex_EncodeToString hash
      in case slice_range 16 32 spanIDHex of
           Inl p \<Rightarrow> Inl p
         | Inr src \<Rightarrow>
             (case dec zeroSpanID src of
                Inl err \<Rightarrow> Inl err
              | Inr spanID \<Rightarrow> Inr spanID))"

definition generateParentSpanID :: "hex_decoder \<Rightarrow> int64 \<Rightarrow> int64 \<Rightarrow> go_error + SpanID" where
  "generateParentSpanID dec runID runAttempt =
     (let input = decimal runID @ decimal runAttempt @ ''s'';
          hash = sha256_Sum256 (bytes input);
          spanIDHex = hex_EncodeToString hash
      in case slice_range 16 32 spanIDHex of
           Inl p \<Rightarrow> Inl p
         | Inr src \<Rightarrow>
             (case dec zeroSpanID src of
                Inl err \<Rightarrow> Inl err
              | Inr spanID \<Rightarrow> Inr spanID))"

definition generateSpanID :: "rand_Reader \<Rightarrow> nat \<Rightarrow> SpanID" where
  \<comment> \<open>the error of \<^verbatim>\<open>binary.Read\<close> is not looked at: a failed read leaves the zero value\<close>
  "generateSpanID rnd n = (case rnd n of None \<Rightarrow> zeroSpanID | Some b \<Rightarrow> b)"

definition generateServiceName :: "Config \<Rightarrow> string \<Rightarrow> string" where
  "generateServiceName config fullName =
     (if CustomServiceName config \<noteq> [] then CustomServiceName config
      else let formattedName =
                 strings_ToLower (strings_ReplaceAll1 (strings_ReplaceAll1 fullName CHR ''/'' CHR ''-'')
                                    CHR ''_'' CHR ''-'')
           in ServiceNamePrefix config @ formattedName @ ServiceNameSuffix config)"

subsection \<open>Spans\<close>

definition setSpanTimes :: "Span \<Rightarrow> Time \<Rightarrow> Time \<Rightarrow> Span" where
  "setSpanTimes span start end' = span\<lparr>span_StartTimestamp := start, span_EndTimestamp := end'\<rparr>"

text \<open>
  The loop of \<^verbatim>\<open>createParentSpan\<close> over the steps, on the pair
  \<open>(allSuccessful, anyFailure)\<close>; it leaves at the first failed step.
\<close>

fun stepsLoop :: "Step list \<Rightarrow> bool \<times> bool \<Rightarrow> bool \<times> bool" where
  "stepsLoop [] (allSuccessful, anyFailure) = (allSuccessful, anyFailure)"
| "stepsLoop (step # steps) (allSuccessful, anyFailure) =
     (let allSuccessful' =
            (if step_Status step \<noteq> ''completed'' \<or> step_Conclusion step \<noteq> ''success''
             then False else allSuccessful)
      in if step_Conclusion step = ''failure'' then (allSuccessful', True)
         else stepsLoop steps (allSuccessful', anyFailure))"

definition createParentSpan ::
  "hex_decoder \<Rightarrow> ScopeSpans \<Rightarrow> Step list \<Rightarrow> WorkflowJob \<Rightarrow> TraceID \<Rightarrow> go_error + ScopeSpans \<times> SpanID" where
  "createParentSpan dec scopeSpans steps job traceID =
     (case discard_error zeroSpanID (generateParentSpanID dec (job_RunID job) (job_RunAttempt job)) of
        Inl p \<Rightarrow> Inl p
      | Inr parentSpanID \<Rightarrow>
     (case discard_error zeroSpanID (generateJobSpanID dec (job_ID job) (job_RunAttempt job) (job_Name job)) of
        Inl p \<Rightarrow> Inl p
      | Inr jobSpanID \<Rightarrow>
          (let span0 = emptySpan\<lparr>span_TraceID := traceID, span_ParentSpanID := parentSpanID,
                         span_SpanID := jobSpanID, span_Name := job_Name job,
                         span_Kind := SpanKindServer\<rparr>;
               span1 = (if 0 < length steps
                        then setSpanTimes span0 (step_StartedAt (hd steps)) (step_CompletedAt (last steps))
                        else setSpanTimes span0 (job_CreatedAt job) (job_CompletedAt job));
               (allSuccessful, anyFailure) = stepsLoop steps (True, False);
               span2 = span1\<lparr>span_StatusCode :=
                         (if anyFailure then StatusCodeError
                          else if allSuccessful then StatusCodeOk
                          else StatusCodeUnset)\<rparr>
           in Inr (scopeSpans\<lparr>Spans := Spans scopeSpans @ [span2]\<rparr>, span_SpanID span2))))"

definition conclusionCode :: "string \<Rightarrow> StatusCode" where
  \<comment> \<open>the \<^verbatim>\<open>switch\<close> on a conclusion in \<^verbatim>\<open>createSpan\<close> and \<^verbatim>\<open>createRootSpan\<close>\<close>
  "conclusionCode conclusion =
     (if conclusion = ''success'' then StatusCodeOk
      else if conclusion = ''failure'' then StatusCodeError
      else StatusCodeUnset)"

definition createSpan ::
  "rand_Reader \<Rightarrow> nat \<Rightarrow> ScopeSpans \<Rightarrow> Step \<Rightarrow> TraceID \<Rightarrow> SpanID \<Rightarrow> ScopeSpans \<times> SpanID" where
  "createSpan rnd n scopeSpans step traceID parentSpanID =
     (let span0 = emptySpan\<lparr>span_TraceID := traceID, span_ParentSpanID := parentSpanID,
                    span_SpanID := generateSpanID rnd n\<rparr>;
          span1 = setSpanTimes span0 (step_StartedAt step) (step_CompletedAt step);
          span2 = span1\<lparr>span_Name := step_Name step, span_Kind := SpanKindServer,
                    span_StatusCode := conclusionCode (step_Conclusion step),
                    span_StatusMessage := step_Conclusion step\<rparr>
      in (scopeSpans\<lparr>Spans := Spans scopeSpans @ [span2]\<rparr>, span_SpanID span2))"

text \<open>The second argument counts the reads of the random source made so far.\<close>

fun processSteps ::
  "rand_Reader \<Rightarrow> nat \<Rightarrow> ScopeSpans \<Rightarrow> Step list \<Rightarrow> TraceID \<Rightarrow> SpanID \<Rightarrow> ScopeSpans" where
  "processSteps rnd n scopeSpans [] traceID parentSpanID = scopeSpans"
| "processSteps rnd n scopeSpans (step # steps) traceID parentSpanID =
     processSteps rnd (Suc n) (fst (createSpan rnd n scopeSpans step traceID parentSpanID))
       steps traceID parentSpanID"

definition createRootSpan ::
  "hex_decoder \<Rightarrow> ResourceSpans \<Rightarrow> WorkflowRunEvent \<Rightarrow> TraceID \<Rightarrow> ResourceSpans \<times> (go_error + SpanID)" where
  \<comment> \<open>the resource spans as the call leaves them, and what the call returns\<close>
  "createRootSpan dec resourceSpans event traceID =
     (case generateParentSpanID dec (run_ID (WorkflowRun event)) (run_RunAttempt (WorkflowRun event)) of
        Inl err \<Rightarrow>
          (resourceSpans\<lparr>ScopeSpansOf := ScopeSpansOf resourceSpans @ [\<lparr>Spans = [emptySpan]\<rparr>]\<rparr>,
           Inl err)
      | Inr rootSpanID \<Rightarrow>
          (let span0 = emptySpan\<lparr>span_TraceID := traceID, span_SpanID := rootSpanID,
                         span_Name := run_Name (WorkflowRun event), span_Kind := SpanKindServer\<rparr>;
               span1 = setSpanTimes span0 (run_RunStartedAt (WorkflowRun event))
                         (run_UpdatedAt (WorkflowRun event));
               span2 = span1\<lparr>span_StatusCode := conclusionCode (run_Conclusion (WorkflowRun event)),
                         span_StatusMessage := run_Conclusion (WorkflowRun event)\<rparr>
           in (resourceSpans\<lparr>ScopeSpansOf := ScopeSpansOf resourceSpans @ [\<lparr>Spans = [span2]\<rparr>]\<rparr>,
               Inr rootSpanID)))"

subsection \<open>Resource attributes\<close>

fun createResourceAttributes :: "(string \<times> Value) list \<Rightarrow> Event \<Rightarrow> Config \<Rightarrow> (string \<times> Value) list" where
  "createResourceAttributes attrs (JobEvent e) config =
     (PutStr ''scm.git.repo'' (FullName (job_Repository e))
     (PutStr ''scm.git.sha'' (job_HeadSha (WorkflowJob e))
     (PutStr ''scm.git.branch'' (job_HeadBranch (WorkflowJob e))
     (PutStr ''scm.system'' ''git''
     (PutStr ''ci.github.workflow'' (job_WorkflowName (WorkflowJob e))
     (PutStr ''ci.github.runner.name'' (job_RunnerName (WorkflowJob e))
     (PutInt ''ci.github.run_attempt'' (job_RunAttempt (WorkflowJob e))
     (PutInt ''ci.github.run_id'' (job_RunID (WorkflowJob e))
     (PutStr ''ci.github.job'' (job_Name (WorkflowJob e))
     (PutStr ''ci.actor'' (Login (Owner (job_Repository e)))
     (PutStr ''ci.system'' ''github''
     (PutStr ''service.name'' (generateServiceName config (FullName (job_Repository e)))
        attrs))))))))))))"
| "createResourceAttributes attrs (RunEvent e) config =
     (PutStr ''scm.git.repo'' (FullName (runevent_Repository e))
     (PutStr ''scm.git.sha'' (run_HeadSha (WorkflowRun e))
     (PutStr ''scm.git.branch'' (run_HeadBranch (WorkflowRun e))
     (PutStr ''scm.system'' ''git''
     (PutStr ''ci.github.workflow_path'' (run_Path (WorkflowRun e))
     (PutStr ''ci.github.workflow'' (run_Name (WorkflowRun e))
     (PutInt ''ci.github.run_attempt'' (run_RunAttempt (WorkflowRun e))
     (PutInt ''ci.github.run_id'' (run_ID (WorkflowRun e))
     (PutStr ''ci.actor'' (Login (Owner (run_Repository (WorkflowRun e))))
     (PutStr ''ci.system'' ''github''
     (PutStr ''service.name'' (generateServiceName config (FullName (runevent_Repository e)))
        attrs)))))))))))"
| "createResourceAttributes attrs OtherEvent config = attrs"

declare createResourceAttributes.simps [simp del]

subsection \<open>From an event to traces\<close>

text \<open>
  \<^verbatim>\<open>eventToTraces\<close> starts from a new \<^verbatim>\<open>Traces\<close> with one \<^verbatim>\<open>ResourceSpans\<close> holding
  one empty \<^verbatim>\<open>ScopeSpans\<close>. Where the Go function returns an error it returns, beside
  it, the traces built so far (on the job path with the resource attributes); its only
  caller drops them and answers with the zero \<^verbatim>\<open>Traces\<close>, and they are not part of the
  result here. With \<^const>\<open>hex_Decode\<close> no job or run event reaches that return.
\<close>

fun eventToTraces :: "hex_decoder \<Rightarrow> rand_Reader \<Rightarrow> Event \<Rightarrow> Config \<Rightarrow> go_error + Traces" where
  "eventToTraces dec rnd (JobEvent e) config =
     (let jobResource = createResourceAttributes [] (JobEvent e) config in
      case generateTraceID dec (job_RunID (WorkflowJob e)) (job_RunAttempt (WorkflowJob e)) of
        Inl (Panic m) \<Rightarrow> Inl (Panic m)
      | Inl _ \<Rightarrow> Inl (Errorf ''failed to generate trace ID'')
      | Inr traceID \<Rightarrow>
          if job_Status (WorkflowJob e) = ''completed''
          then (case createParentSpan dec emptyScopeSpans (job_Steps (WorkflowJob e)) (WorkflowJob e) traceID of
                  Inl p \<Rightarrow> Inl p
                | Inr (scopeSpans, parentSpanID) \<Rightarrow>
                    Inr [\<lparr>Resource = jobResource,
                          ScopeSpansOf = [processSteps rnd 0 scopeSpans (job_Steps (WorkflowJob e))
                                            traceID parentSpanID]\<rparr>])
          else Inr [\<lparr>Resource = jobResource, ScopeSpansOf = [emptyScopeSpans]\<rparr>])"
| "eventToTraces dec rnd (RunEvent e) config =
     (case generateTraceID dec (run_ID (WorkflowRun e)) (run_RunAttempt (WorkflowRun e)) of
        Inl (Panic m) \<Rightarrow> Inl (Panic m)
      | Inl _ \<Rightarrow> Inl (Errorf ''failed to generate trace ID'')
      | Inr traceID \<Rightarrow>
          if run_Status (WorkflowRun e) = ''completed''
          then (let runResource = createResourceAttributes [] (RunEvent e) config in
                case createRootSpan dec \<lparr>Resource = runResource, ScopeSpansOf = [emptyScopeSpans]\<rparr>
                       e traceID of
                  (_, Inl (Panic m)) \<Rightarrow> Inl (Panic m)
                | (resourceSpans, _) \<Rightarrow> Inr [resourceSpans])
          else Inr [\<lparr>Resource = [], ScopeSpansOf = [emptyScopeSpans]\<rparr>])"
| "eventToTraces dec rnd OtherEvent config = Inl (Errorf ''unknown event type, dropping payload'')"

declare eventToTraces.simps [simp del]

text \<open>
  \<^verbatim>\<open>encoding/json\<close> and the declarations of the event structures are not part of the
  file; the three calls of \<^verbatim>\<open>json.Unmarshal\<close> are the fields of a record: the decoding
  of the payload into a map from its top-level keys to raw values, and the decodings
  into the two event structures.
\<close>

record json_Unmarshal =
  unmarshalMap :: "byte list \<Rightarrow> go_error + (string \<rightharpoonup> byte list)"
  unmarshalJobEvent :: "byte list \<Rightarrow> go_error + WorkflowJobEvent"
  unmarshalRunEvent :: "byte list \<Rightarrow> go_error + WorkflowRunEvent"

definition UnmarshalTraces ::
  "json_Unmarshal \<Rightarrow> hex_decoder \<Rightarrow> rand_Reader \<Rightarrow> byte list \<Rightarrow> Config \<Rightarrow> go_error + Traces" where
  "UnmarshalTraces json dec rnd blob config =
     (case unmarshalMap json blob of
        Inl err \<Rightarrow> Inl err
      | Inr event \<Rightarrow>
          if event ''workflow_job'' \<noteq> None
          then (case unmarshalJobEvent json blob of
                  Inl err \<Rightarrow> Inl err
                | Inr jobEvent \<Rightarrow>
                    (case eventToTraces dec rnd (JobEvent jobEvent) config of
                       Inl err \<Rightarrow> Inl err
                     | Inr traces \<Rightarrow> Inr traces))
          else if event ''workflow_run'' \<noteq> None
          then (case unmarshalRunEvent json blob of
                  Inl err \<Rightarrow> Inl err
                | Inr runEvent \<Rightarrow>
                    (case eventToTraces dec rnd (RunEvent runEvent) config of
                       Inl err \<Rightarrow> Inl err
                     | Inr traces \<Rightarrow> Inr traces))
          else Inl (Errorf ''unknown event type''))"

subsection \<open>Signatures\<close>

definition validateSignatureSHA256 :: "string \<Rightarrow> string \<Rightarrow> byte list \<Rightarrow> go_error + bool" where
  "validateSignatureSHA256 secret signatureHeader body =
     (if signatureHeader = [] \<or> length signatureHeader < 7 then Inr False
      else case slice_from 7 signatureHeader of
             Inl p \<Rightarrow> Inl p
           | Inr receivedSig \<Rightarrow>
               (let expectedSig = hex_EncodeToString (hmac_Sum sha256_Sum256 (bytes secret) body)
                in Inr (hmac_Equal expectedSig receivedSig)))"

definition validateSignatureSHA1 :: "string \<Rightarrow> string \<Rightarrow> byte list \<Rightarrow> go_error + bool" where
  "validateSignatureSHA1 secret signatureHeader body =
     (if signatureHeader = [] then Inr False
      else case slice_from 5 signatureHeader of
             Inl p \<Rightarrow> Inl p
           | Inr receivedSig \<Rightarrow>
               (let expectedSig = hex_EncodeToString (hmac_Sum sha1_Sum (bytes secret) body)
                in Inr (hmac_Equal expectedSig receivedSig)))"

subsection \<open>The HTTP handler\<close>

text \<open>
  Of a request the handler reads the \<^verbatim>\<open>User-Agent\<close> and the two signature headers
  (\<^verbatim>\<open>Header.Get\<close> gives the empty string for a header that is absent), the path and
  the body, whose reading may fail. The receiver holds its configuration and the next
  consumer. The handler answers with a status code, unless it panics.
\<close>

record Request =
  UserAgent :: string
  URLPath :: string
  Body :: "go_error + byte list"
  XHubSignature256 :: string
  XHubSignature :: string

record githubActionsEventReceiver =
  config :: Config
  nextConsumer :: "Traces \<Rightarrow> go_error option"

datatype Response = Status nat | Panicked go_error

definition StatusAccepted :: nat where "StatusAccepted = 202"
definition StatusBadRequest :: nat where "StatusBadRequest = 400"
definition StatusUnauthorized :: nat where "StatusUnauthorized = 401"
definition StatusForbidden :: nat where "StatusForbidden = 403"
definition StatusNotFound :: nat where "StatusNotFound = 404"
definition StatusInternalServerError :: nat where "StatusInternalServerError = 500"

text \<open>Lines 481 to 499: the verified payload is decoded and handed to the next consumer.\<close>

definition deliver ::
  "json_Unmarshal \<Rightarrow> hex_decoder \<Rightarrow> rand_Reader \<Rightarrow> githubActionsEventReceiver \<Rightarrow> byte list \<Rightarrow> Response" where
  "deliver json dec rnd gaer slurp =
     (case UnmarshalTraces json dec rnd slurp (config gaer) of
        Inl (Panic m) \<Rightarrow> Panicked (Panic m)
      | Inl _ \<Rightarrow> Status StatusBadRequest
      | Inr td \<Rightarrow>
          (case nextConsumer gaer td of
             Some consumerErr \<Rightarrow> Status StatusInternalServerError
           | None \<Rightarrow> Status StatusAccepted))"

definition ServeHTTP ::
  "json_Unmarshal \<Rightarrow> hex_decoder \<Rightarrow> rand_Reader \<Rightarrow> githubActionsEventReceiver \<Rightarrow> Request \<Rightarrow> Response" where
  "ServeHTTP json dec rnd gaer r =
     (if \<not> strings_HasPrefix (UserAgent r) ''GitHub-Hookshot'' then Status StatusForbidden
      else if URLPath r \<noteq> Path (config gaer) then Status StatusNotFound
      else case Body r of
        Inl err \<Rightarrow> Status StatusInternalServerError
      | Inr slurp \<Rightarrow>
          if Secret (config gaer) \<noteq> []
          then (case (if XHubSignature256 r \<noteq> []
                      then validateSignatureSHA256 (Secret (config gaer)) (XHubSignature256 r) slurp
                      else Inr True) of
                  Inl p \<Rightarrow> Panicked p
                | Inr False \<Rightarrow> Status StatusUnauthorized
                | Inr True \<Rightarrow>
                    (case (if XHubSignature r \<noteq> []
                           then validateSignatureSHA1 (Secret (config gaer)) (XHubSignature r) slurp
                           else Inr True) of
                       Inl p \<Rightarrow> Panicked p
                     | Inr False \<Rightarrow> Status StatusUnauthorized
                     | Inr True \<Rightarrow> deliver json dec rnd gaer slurp))
          else deliver json dec rnd gaer slurp)"

section \<open>Example inputs\<close>

definition example_step :: "string \<Rightarrow> string \<Rightarrow> Step" where
  "example_step name conclusion =
     \<lparr>step_Name = name, step_Status = ''completed'', step_Conclusion = conclusion,
      step_StartedAt = 1700000000000000000, step_CompletedAt = 1700000010000000000\<rparr>"

definition example_repository :: Repository where
  "example_repository = \<lparr>FullName = ''Org/Repo_Name'', Owner = \<lparr>Login = ''octocat''\<rparr>\<rparr>"

definition example_job :: "string \<Rightarrow> Step list \<Rightarrow> WorkflowJob" where
  "example_job status steps =
     \<lparr>job_ID = 7, job_RunID = 12345, job_RunAttempt = 1, job_Name = ''build'',
      job_Status = status, job_Steps = steps, job_HeadBranch = ''main'',
      job_HeadSha = ''0123abc'', job_RunnerName = ''runner-1'', job_WorkflowName = ''CI'',
      job_CreatedAt = 1699999990000000000, job_CompletedAt = 1700000020000000000\<rparr>"

definition example_job_event :: "string \<Rightarrow> Step list \<Rightarrow> WorkflowJobEvent" where
  "example_job_event status steps =
     \<lparr>WorkflowJob = example_job status steps, job_Repository = example_repository\<rparr>"

definition example_run :: "string \<Rightarrow> WorkflowRun" where
  "example_run status =
     \<lparr>run_ID = 12345, run_RunAttempt = 1, run_Name = ''CI'', run_Path = ''.github/workflows/ci.yml'',
      run_Status = status, run_Conclusion = ''success'', run_HeadBranch = ''main'',
      run_HeadSha = ''0123abc'', run_RunStartedAt = 1699999980000000000,
      run_UpdatedAt = 1700000030000000000, run_Repository = example_repository\<rparr>"

definition example_run_event :: "string \<Rightarrow> WorkflowRunEvent" where
  "example_run_event status =
     \<lparr>WorkflowRun = example_run status, runevent_Repository = example_repository\<rparr>"

definition example_config :: Config where
  "example_config =
     \<lparr>Path = ''/events'', Secret = ''s3cr3t'', CustomServiceName = [],
      ServiceNamePrefix = ''ci-'', ServiceNameSuffix = []\<rparr>"

definition no_random :: rand_Reader where
  \<comment> \<open>a random source whose every read fails\<close>
  "no_random n = None"

definition example_json :: json_Unmarshal where
  "example_json =
     \<lparr>unmarshalMap = (\<lambda>blob. Inr [''workflow_job'' \<mapsto> bytes ''{}'', ''workflow_run'' \<mapsto> bytes ''{}'']),
      unmarshalJobEvent = (\<lambda>blob. Inr (example_job_event ''in_progress'' [])),
      unmarshalRunEvent = (\<lambda>blob. Inr (example_run_event ''completed''))\<rparr>"

definition example_receiver :: githubActionsEventReceiver where
  "example_receiver = \<lparr>config = example_config, nextConsumer = (\<lambda>td. None)\<rparr>"

text \<open>
  A payload that decodes: the top-level object has the key \<open>workflow_job\<close>, and the
  decoding into a job event leaves every field but the status of the job at its zero
  value (for a \<^verbatim>\<open>time.Time\<close>, the \<^verbatim>\<open>UnixNano()\<close> reading of the zero time). Every
  other payload is refused by the decoders of this example.
\<close>

definition example_body :: string where
  \<open>example_body = ''{"workflow_job":{"status":"in_progress"}}''\<close>

definition zero_repository :: Repository where
  "zero_repository = \<lparr>FullName = [], Owner = \<lparr>Login = []\<rparr>\<rparr>"

definition example_body_job_event :: WorkflowJobEvent where
  "example_body_job_event =
     \<lparr>WorkflowJob =
        \<lparr>job_ID = 0, job_RunID = 0, job_RunAttempt = 0, job_Name = [],
         job_Status = ''in_progress'', job_Steps = [], job_HeadBranch = [],
         job_HeadSha = [], job_RunnerName = [], job_WorkflowName = [],
         job_CreatedAt = - 6795364578871345152, job_CompletedAt = - 6795364578871345152\<rparr>,
      job_Repository = zero_repository\<rparr>"

definition example_body_run_event :: WorkflowRunEvent where
  "example_body_run_event =
     \<lparr>WorkflowRun =
        \<lparr>run_ID = 0, run_RunAttempt = 0, run_Name = [], run_Path = [],
         run_Status = [], run_Conclusion = [], run_HeadBranch = [],
         run_HeadSha = [], run_RunStartedAt = - 6795364578871345152,
         run_UpdatedAt = - 6795364578871345152, run_Repository = zero_repository\<rparr>,
      runevent_Repository = zero_repository\<rparr>"

definition example_body_json :: json_Unmarshal where
  \<open>example_body_json =
     \<lparr>unmarshalMap = (\<lambda>blob. if blob = bytes example_body
          then Inr [''workflow_job'' \<mapsto> bytes ''{"status":"in_progress"}'']
          else Inl (UnmarshalError ''invalid character'')),
      unmarshalJobEvent = (\<lambda>blob. if blob = bytes example_body
          then Inr example_body_job_event
          else Inl (UnmarshalError ''invalid character'')),
      unmarshalRunEvent = (\<lambda>blob. if blob = bytes example_body
          then Inr example_body_run_event
          else Inl (UnmarshalError ''invalid character''))\<rparr>\<close>

definition example_request :: "string \<Rightarrow> string \<Rightarrow> Request" where
  "example_request signature256 signature1 =
     \<lparr>UserAgent = ''GitHub-Hookshot/044aadd'', URLPath = ''/events'',
      Body = Inr (bytes example_body),
      XHubSignature256 = signature256, XHubSignature = signature1\<rparr>"

section \<open>Sanity of the library model\<close>

lemma sha256_abc:
  "sha256_Sum256 (bytes ''abc'') =
     [0xba, 0x78, 0x16, 0xbf, 0x8f, 0x01, 0xcf, 0xea, 0x41, 0x41, 0x40, 0xde, 0x5d, 0xae, 0x22, 0x23,
      0xb0, 0x03, 0x61, 0xa3, 0x96, 0x17, 0x7a, 0x9c, 0xb4, 0x10, 0xff, 0x61, 0xf2, 0x00, 0x15, 0xad]"
  by code_simp

lemma sha1_abc:
  "sha1_Sum (bytes ''abc'') =
     [0xa9, 0x99, 0x3e, 0x36, 0x47, 0x06, 0x81, 0x6a, 0xba, 0x3e,
      0x25, 0x71, 0x78, 0x50, 0xc2, 0x6c, 0x9c, 0xd0, 0xd8, 0x9d]"
  by code_simp

lemma decimal_examples:
  "decimal 12345 = ''12345''" "decimal (- 42) = ''-42''" "decimal 0 = ''0''"
  by (simp_all add: decimal_def digits.simps)

lemma hex_Decode_examples:
  "hex_Decode [0, 0] ''Ba7f'' = Inr [0xba, 0x7f]"
  "hex_Decode [0, 0] ''ba7'' = Inl ErrLength"
  "hex_Decode [0, 0] ''bg'' = Inl (InvalidByteError CHR ''g'')"
  "hex_Decode [0] ''ba7f'' = Inl (Panic ''index out of range'')"
  by code_simp+

lemma generateServiceName_example:
  "generateServiceName example_config ''Org/Repo_Name'' = ''ci-org-repo-name''"
  by code_simp

section \<open>Hashes and hex strings\<close>

lemma length_bytes_of_u32: "length (bytes_of_u32 w) = 4"
  by (simp add: bytes_of_u32_def)

lemma length_digest256: "length (digest256 s) = 32"
  by (cases s rule: digest256.cases) (simp add: length_bytes_of_u32)

lemma length_sha256_Sum256: "length (sha256_Sum256 m) = 32"
  by (simp add: sha256_Sum256_def length_digest256)

lemma length_digest1: "length (digest1 s) = 20"
  by (cases s rule: digest1.cases) (simp add: length_bytes_of_u32)

lemma length_sha1_Sum: "length (sha1_Sum m) = 20"
  by (simp add: sha1_Sum_def length_digest1)

lemma hex_EncodeToString_Nil: "hex_EncodeToString [] = []"
  by (simp add: hex_EncodeToString_def)

lemma hex_EncodeToString_Cons:
  "hex_EncodeToString (v # src) =
     hextable ! unat (drop_bit 4 v) # hextable ! unat (v AND 0x0f) # hex_EncodeToString src"
  by (simp add: hex_EncodeToString_def)

lemma length_hex_EncodeToString: "length (hex_EncodeToString src) = 2 * length src"
  by (induction src) (simp_all add: hex_EncodeToString_Nil hex_EncodeToString_Cons)

lemma take_hex_EncodeToString:
  "take (2 * n) (hex_EncodeToString src) = hex_EncodeToString (take n src)"
proof (induction src arbitrary: n)
  case Nil
  show ?case by (simp add: hex_EncodeToString_Nil)
next
  case (Cons v src)
  show ?case
  proof (cases n)
    case 0
    then show ?thesis by (simp add: hex_EncodeToString_Nil)
  next
    case (Suc k)
    then show ?thesis using Cons.IH [of k] by (simp add: hex_EncodeToString_Cons)
  qed
qed

lemma drop_hex_EncodeToString:
  "drop (2 * n) (hex_EncodeToString src) = hex_EncodeToString (drop n src)"
proof (induction src arbitrary: n)
  case Nil
  show ?case by (simp add: hex_EncodeToString_Nil)
next
  case (Cons v src)
  show ?case
  proof (cases n)
    case 0
    then show ?thesis by simp
  next
    case (Suc k)
    then show ?thesis using Cons.IH [of k] by (simp add: hex_EncodeToString_Cons)
  qed
qed

lemma fromHexChar_hextable_all:
  "list_all (\<lambda>n. fromHexChar (hextable ! n) = Some (of_nat n)) [0..<16]"
  by code_simp

lemma fromHexChar_hextable:
  assumes "n < 16"
  shows "fromHexChar (hextable ! n) = Some (of_nat n)"
  using assms fromHexChar_hextable_all by (simp add: list_all_iff)

lemma unat_high_nibble: "unat (drop_bit 4 (v :: byte)) < 16"
proof -
  have "unat (drop_bit 4 v) = unat v div 16"
    by (simp add: drop_bit_eq_div unat_div)
  moreover have "unat v < 256"
    using unsigned_less [of v] by simp
  ultimately show ?thesis by simp
qed

lemma unat_low_nibble: "unat ((v :: byte) AND 0x0f) < 16"
proof -
  have "unat (v AND 15) \<le> unat (15 :: byte)"
    by (rule word_and_le1 [THEN word_le_nat_alt [THEN iffD1]])
  then show ?thesis by simp
qed

lemma nibbles_join: "push_bit 4 (drop_bit 4 (v :: byte)) OR (v AND 0x0f) = v"
proof -
  have "(15 :: byte) = mask 4" by (simp add: mask_eq_exp_minus_1)
  then show ?thesis
    by (simp add: bit_eq_iff bit_simps) (auto)
qed

lemma hex_Decode_EncodeToString:
  "length src \<le> length dst \<Longrightarrow>
     hex_Decode dst (hex_EncodeToString src) = Inr (src @ drop (length src) dst)"
proof (induction src arbitrary: dst)
  case Nil
  show ?case by (simp add: hex_EncodeToString_Nil)
next
  case (Cons v src)
  then obtain d dst' where dst: "dst = d # dst'" and len: "length src \<le> length dst'"
    by (cases dst) auto
  have hi: "fromHexChar (hextable ! unat (drop_bit 4 v)) = Some (drop_bit 4 v)"
    using fromHexChar_hextable [OF unat_high_nibble [of v]] by simp
  have lo: "fromHexChar (hextable ! unat (v AND 0x0f)) = Some (v AND 0x0f)"
    using fromHexChar_hextable [OF unat_low_nibble [of v]] by simp
  show ?case
    using Cons.IH [OF len] by (simp add: hex_EncodeToString_Cons dst hi lo nibbles_join)
qed

section \<open>The identifiers with the decoder of the library\<close>

lemma slice_hex_EncodeToString:
  assumes "2 * hi \<le> 2 * length src" and "lo \<le> hi"
  shows "slice_range (2 * lo) (2 * hi) (hex_EncodeToString src)
           = Inr (hex_EncodeToString (take (hi - lo) (drop lo src)))"
proof -
  have "take (2 * hi - 2 * lo) (drop (2 * lo) (hex_EncodeToString src))
          = take (2 * (hi - lo)) (hex_EncodeToString (drop lo src))"
    by (simp add: drop_hex_EncodeToString diff_mult_distrib2)
  then show ?thesis
    using assms by (simp add: slice_range_def length_hex_EncodeToString take_hex_EncodeToString)
qed

lemma generateTraceID_hex_Decode:
  "generateTraceID hex_Decode runID runAttempt =
     Inr (take 16 (sha256_Sum256 (bytes (decimal runID @ decimal runAttempt @ ''t''))))"
proof -
  let ?h = "sha256_Sum256 (bytes (decimal runID @ decimal runAttempt @ ''t''))"
  have "slice_range (2 * 0) (2 * 16) (hex_EncodeToString ?h) = Inr (hex_EncodeToString (take (16 - 0) (drop 0 ?h)))"
    by (rule slice_hex_EncodeToString) (simp_all add: length_sha256_Sum256)
  then have s: "slice_range 0 32 (hex_EncodeToString ?h) = Inr (hex_EncodeToString (take 16 ?h))"
    by simp
  have "hex_Decode zeroTraceID (hex_EncodeToString (take 16 ?h))
          = Inr (take 16 ?h @ drop (length (take 16 ?h)) zeroTraceID)"
    by (rule hex_Decode_EncodeToString) (simp add: zeroTraceID_def length_sha256_Sum256)
  then have d: "hex_Decode zeroTraceID (hex_EncodeToString (take 16 ?h)) = Inr (take 16 ?h)"
    by (simp add: zeroTraceID_def length_sha256_Sum256)
  show ?thesis
    by (simp add: generateTraceID_def Let_def s d)
qed

lemma span_id_bytes:
  fixes h :: "byte list"
  assumes "length h = 32"
  shows "(case slice_range 16 32 (hex_EncodeToString h) of
            Inl p \<Rightarrow> Inl p
          | Inr src \<Rightarrow> (case hex_Decode zeroSpanID src of Inl err \<Rightarrow> Inl err | Inr spanID \<Rightarrow> Inr spanID))
         = Inr (take 8 (drop 8 h))"
proof -
  have "slice_range (2 * 8) (2 * 16) (hex_EncodeToString h) = Inr (hex_EncodeToString (take (16 - 8) (drop 8 h)))"
    by (rule slice_hex_EncodeToString) (simp_all add: assms)
  then have s: "slice_range 16 32 (hex_EncodeToString h) = Inr (hex_EncodeToString (take 8 (drop 8 h)))"
    by simp
  have "hex_Decode zeroSpanID (hex_EncodeToString (take 8 (drop 8 h)))
          = Inr (take 8 (drop 8 h) @ drop (length (take 8 (drop 8 h))) zeroSpanID)"
    by (rule hex_Decode_EncodeToString) (simp add: zeroSpanID_def assms)
  then have d: "hex_Decode zeroSpanID (hex_EncodeToString (take 8 (drop 8 h))) = Inr (take 8 (drop 8 h))"
    by (simp add: zeroSpanID_def assms)
  show ?thesis
    by (simp add: s d)
qed

lemma generateJobSpanID_hex_Decode:
  "generateJobSpanID hex_Decode runID runAttempt job =
     Inr (take 8 (drop 8 (sha256_Sum256 (bytes (decimal runID @ decimal runAttempt @ job)))))"
  unfolding generateJobSpanID_def Let_def
  by (rule span_id_bytes) (rule length_sha256_Sum256)

lemma generateParentSpanID_hex_Decode:
  "generateParentSpanID hex_Decode runID runAttempt =
     Inr (take 8 (drop 8 (sha256_Sum256 (bytes (decimal runID @ decimal runAttempt @ ''s'')))))"
  unfolding generateParentSpanID_def Let_def
  by (rule span_id_bytes) (rule length_sha256_Sum256)

section \<open>Spans and traces with the decoder of the library\<close>

lemma stepsLoop_anyFailure:
  "snd (stepsLoop steps (a, f)) = (f \<or> list_ex (\<lambda>step. step_Conclusion step = ''failure'') steps)"
  by (induction steps arbitrary: a f) (auto simp: Let_def)

lemma stepsLoop_allSuccessful:
  "\<not> list_ex (\<lambda>step. step_Conclusion step = ''failure'') steps \<Longrightarrow>
     fst (stepsLoop steps (a, f)) =
       (a \<and> list_all (\<lambda>step. step_Status step = ''completed'' \<and> step_Conclusion step = ''success'') steps)"
  by (induction steps arbitrary: a f) (auto simp: Let_def)

lemma createParentSpan_hex_Decode:
  "\<exists>span.
     createParentSpan hex_Decode scopeSpans steps job traceID
       = Inr (scopeSpans\<lparr>Spans := Spans scopeSpans @ [span]\<rparr>, span_SpanID span)
     \<and> span_TraceID span = traceID
     \<and> span_SpanID span =
         take 8 (drop 8 (sha256_Sum256
           (bytes (decimal (job_ID job) @ decimal (job_RunAttempt job) @ job_Name job))))
     \<and> span_ParentSpanID span =
         take 8 (drop 8 (sha256_Sum256
           (bytes (decimal (job_RunID job) @ decimal (job_RunAttempt job) @ ''s''))))
     \<and> span_Name span = job_Name job
     \<and> span_Kind span = SpanKindServer
     \<and> span_StartTimestamp span =
         (if steps = [] then job_CreatedAt job else step_StartedAt (hd steps))
     \<and> span_EndTimestamp span =
         (if steps = [] then job_CompletedAt job else step_CompletedAt (last steps))
     \<and> span_StatusCode span =
         (if list_ex (\<lambda>step. step_Conclusion step = ''failure'') steps then StatusCodeError
          else if list_all (\<lambda>step. step_Status step = ''completed'' \<and> step_Conclusion step = ''success'') steps
          then StatusCodeOk else StatusCodeUnset)
     \<and> span_StatusMessage span = []"
proof -
  obtain a f where loop: "stepsLoop steps (True, False) = (a, f)"
    by (cases "stepsLoop steps (True, False)")
  have f: "f = list_ex (\<lambda>step. step_Conclusion step = ''failure'') steps"
    using stepsLoop_anyFailure [of steps True False] by (simp add: loop)
  have a: "\<not> f \<Longrightarrow>
      a = list_all (\<lambda>step. step_Status step = ''completed'' \<and> step_Conclusion step = ''success'') steps"
    using stepsLoop_allSuccessful [of steps True False] by (simp add: loop f)
  show ?thesis
    using a
    by (cases "steps = []")
       (auto simp: createParentSpan_def discard_error_def generateParentSpanID_hex_Decode
          generateJobSpanID_hex_Decode loop f setSpanTimes_def emptySpan_def Let_def)
qed

lemma Spans_processSteps:
  "\<exists>stepSpans.
     Spans (processSteps rnd n scopeSpans steps traceID parentSpanID) = Spans scopeSpans @ stepSpans
     \<and> length stepSpans = length steps
     \<and> list_all (\<lambda>s. span_TraceID s = traceID \<and> span_ParentSpanID s = parentSpanID) stepSpans"
proof (induction steps arbitrary: n scopeSpans)
  case Nil
  show ?case by simp
next
  case (Cons step steps)
  let ?next = "fst (createSpan rnd n scopeSpans step traceID parentSpanID)"
  obtain stepSpan where one: "Spans ?next = Spans scopeSpans @ [stepSpan]"
    and ids: "span_TraceID stepSpan = traceID" "span_ParentSpanID stepSpan = parentSpanID"
    by (simp add: createSpan_def Let_def setSpanTimes_def)
  obtain stepSpans where
    "Spans (processSteps rnd (Suc n) ?next steps traceID parentSpanID) = Spans ?next @ stepSpans"
    "length stepSpans = length steps"
    "list_all (\<lambda>s. span_TraceID s = traceID \<and> span_ParentSpanID s = parentSpanID) stepSpans"
    using Cons.IH [of "Suc n" ?next] by blast
  then have
    "Spans (processSteps rnd n scopeSpans (step # steps) traceID parentSpanID)
       = Spans scopeSpans @ (stepSpan # stepSpans)
     \<and> length (stepSpan # stepSpans) = length (step # steps)
     \<and> list_all (\<lambda>s. span_TraceID s = traceID \<and> span_ParentSpanID s = parentSpanID)
          (stepSpan # stepSpans)"
    by (simp add: one ids)
  then show ?case by blast
qed

lemma eventToTraces_job_completed:
  assumes "job_Status (WorkflowJob e) = ''completed''"
  shows "\<exists>scopeSpans parentSpanID.
     createParentSpan hex_Decode emptyScopeSpans (job_Steps (WorkflowJob e)) (WorkflowJob e)
         (take 16 (sha256_Sum256 (bytes (decimal (job_RunID (WorkflowJob e))
            @ decimal (job_RunAttempt (WorkflowJob e)) @ ''t''))))
       = Inr (scopeSpans, parentSpanID)
     \<and> eventToTraces hex_Decode rnd (JobEvent e) cfg
       = Inr [\<lparr>Resource = createResourceAttributes [] (JobEvent e) cfg,
               ScopeSpansOf = [processSteps rnd 0 scopeSpans (job_Steps (WorkflowJob e))
                  (take 16 (sha256_Sum256 (bytes (decimal (job_RunID (WorkflowJob e))
                     @ decimal (job_RunAttempt (WorkflowJob e)) @ ''t''))))
                  parentSpanID]\<rparr>]"
proof -
  let ?tid = "take 16 (sha256_Sum256 (bytes (decimal (job_RunID (WorkflowJob e))
            @ decimal (job_RunAttempt (WorkflowJob e)) @ ''t'')))"
  obtain span where
    "createParentSpan hex_Decode emptyScopeSpans (job_Steps (WorkflowJob e)) (WorkflowJob e) ?tid
       = Inr (emptyScopeSpans\<lparr>Spans := Spans emptyScopeSpans @ [span]\<rparr>, span_SpanID span)"
    using createParentSpan_hex_Decode [of emptyScopeSpans "job_Steps (WorkflowJob e)" "WorkflowJob e" ?tid]
    by blast
  then show ?thesis
    using assms by (simp add: eventToTraces.simps generateTraceID_hex_Decode Let_def)
qed

lemma eventToTraces_job_not_completed:
  assumes "job_Status (WorkflowJob e) \<noteq> ''completed''"
  shows "eventToTraces hex_Decode rnd (JobEvent e) cfg
       = Inr [\<lparr>Resource = createResourceAttributes [] (JobEvent e) cfg,
               ScopeSpansOf = [emptyScopeSpans]\<rparr>]"
  using assms by (simp add: eventToTraces.simps generateTraceID_hex_Decode Let_def)

lemma createResourceAttributes_job:
  "createResourceAttributes [] (JobEvent e) cfg =
     [(''service.name'', ValueStr (generateServiceName cfg (FullName (job_Repository e)))),
      (''ci.system'', ValueStr ''github''),
      (''ci.actor'', ValueStr (Login (Owner (job_Repository e)))),
      (''ci.github.job'', ValueStr (job_Name (WorkflowJob e))),
      (''ci.github.run_id'', ValueInt (job_RunID (WorkflowJob e))),
      (''ci.github.run_attempt'', ValueInt (job_RunAttempt (WorkflowJob e))),
      (''ci.github.runner.name'', ValueStr (job_RunnerName (WorkflowJob e))),
      (''ci.github.workflow'', ValueStr (job_WorkflowName (WorkflowJob e))),
      (''scm.system'', ValueStr ''git''),
      (''scm.git.branch'', ValueStr (job_HeadBranch (WorkflowJob e))),
      (''scm.git.sha'', ValueStr (job_HeadSha (WorkflowJob e))),
      (''scm.git.repo'', ValueStr (FullName (job_Repository e)))]"
  by (simp add: createResourceAttributes.simps PutStr_def PutInt_def)

lemma eventToTraces_run_completed:
  assumes "run_Status (WorkflowRun e) = ''completed''"
  shows "\<exists>span.
     eventToTraces hex_Decode rnd (RunEvent e) cfg
       = Inr [\<lparr>Resource = createResourceAttributes [] (RunEvent e) cfg,
               ScopeSpansOf = [emptyScopeSpans, \<lparr>Spans = [span]\<rparr>]\<rparr>]
     \<and> span_TraceID span = take 16 (sha256_Sum256 (bytes (decimal (run_ID (WorkflowRun e))
            @ decimal (run_RunAttempt (WorkflowRun e)) @ ''t'')))
     \<and> span_SpanID span = take 8 (drop 8 (sha256_Sum256 (bytes (decimal (run_ID (WorkflowRun e))
            @ decimal (run_RunAttempt (WorkflowRun e)) @ ''s''))))"
  using assms
  by (simp add: eventToTraces.simps generateTraceID_hex_Decode generateParentSpanID_hex_Decode
        createRootSpan_def Let_def setSpanTimes_def emptySpan_def)

lemma eventToTraces_run_not_completed:
  assumes "run_Status (WorkflowRun e) \<noteq> ''completed''"
  shows "eventToTraces hex_Decode rnd (RunEvent e) cfg
       = Inr [\<lparr>Resource = [], ScopeSpansOf = [emptyScopeSpans]\<rparr>]"
  using assms by (simp add: eventToTraces.simps generateTraceID_hex_Decode)

lemma job_event_completed_spans:
  assumes "job_Status (WorkflowJob e) = ''completed''"
  shows "\<exists>td jobSpan stepSpans.
     eventToTraces hex_Decode rnd (JobEvent e) cfg = Inr td
     \<and> all_spans td = jobSpan # stepSpans
     \<and> length stepSpans = length (job_Steps (WorkflowJob e))
     \<and> span_TraceID jobSpan =
         take 16 (sha256_Sum256 (bytes (decimal (job_RunID (WorkflowJob e))
            @ decimal (job_RunAttempt (WorkflowJob e)) @ ''t'')))
     \<and> span_SpanID jobSpan =
         take 8 (drop 8 (sha256_Sum256 (bytes (decimal (job_ID (WorkflowJob e))
            @ decimal (job_RunAttempt (WorkflowJob e)) @ job_Name (WorkflowJob e)))))
     \<and> span_ParentSpanID jobSpan =
         take 8 (drop 8 (sha256_Sum256 (bytes (decimal (job_RunID (WorkflowJob e))
            @ decimal (job_RunAttempt (WorkflowJob e)) @ ''s''))))
     \<and> list_all (\<lambda>s. span_TraceID s = span_TraceID jobSpan
                      \<and> span_ParentSpanID s = span_SpanID jobSpan) stepSpans"
proof -
  let ?tid = "take 16 (sha256_Sum256 (bytes (decimal (job_RunID (WorkflowJob e))
            @ decimal (job_RunAttempt (WorkflowJob e)) @ ''t'')))"
  let ?steps = "job_Steps (WorkflowJob e)"
  obtain jobSpan where parent:
    "createParentSpan hex_Decode emptyScopeSpans ?steps (WorkflowJob e) ?tid
       = Inr (emptyScopeSpans\<lparr>Spans := Spans emptyScopeSpans @ [jobSpan]\<rparr>, span_SpanID jobSpan)"
    and ids: "span_TraceID jobSpan = ?tid"
      "span_SpanID jobSpan =
         take 8 (drop 8 (sha256_Sum256 (bytes (decimal (job_ID (WorkflowJob e))
            @ decimal (job_RunAttempt (WorkflowJob e)) @ job_Name (WorkflowJob e)))))"
      "span_ParentSpanID jobSpan =
         take 8 (drop 8 (sha256_Sum256 (bytes (decimal (job_RunID (WorkflowJob e))
            @ decimal (job_RunAttempt (WorkflowJob e)) @ ''s''))))"
    using createParentSpan_hex_Decode [of emptyScopeSpans ?steps "WorkflowJob e" ?tid]
    by blast
  let ?scope = "emptyScopeSpans\<lparr>Spans := Spans emptyScopeSpans @ [jobSpan]\<rparr>"
  obtain stepSpans where steps:
    "Spans (processSteps rnd 0 ?scope ?steps ?tid (span_SpanID jobSpan)) = Spans ?scope @ stepSpans"
    "length stepSpans = length ?steps"
    "list_all (\<lambda>s. span_TraceID s = ?tid \<and> span_ParentSpanID s = span_SpanID jobSpan) stepSpans"
    using Spans_processSteps [of rnd 0 ?scope ?steps ?tid "span_SpanID jobSpan"] by blast
  have "eventToTraces hex_Decode rnd (JobEvent e) cfg
      = Inr [\<lparr>Resource = createResourceAttributes [] (JobEvent e) cfg,
              ScopeSpansOf = [processSteps rnd 0 ?scope ?steps ?tid (span_SpanID jobSpan)]\<rparr>]"
    using assms parent by (simp add: eventToTraces.simps generateTraceID_hex_Decode Let_def)
  moreover have "all_spans [\<lparr>Resource = createResourceAttributes [] (JobEvent e) cfg,
              ScopeSpansOf = [processSteps rnd 0 ?scope ?steps ?tid (span_SpanID jobSpan)]\<rparr>]
      = jobSpan # stepSpans"
    using steps(1) by (simp add: all_spans_def emptyScopeSpans_def)
  ultimately show ?thesis
    using ids steps(2,3) by (simp add: ids(1))
qed

lemma run_event_completed_spans:
  assumes "run_Status (WorkflowRun e) = ''completed''"
  shows "\<exists>td rootSpan.
     eventToTraces hex_Decode rnd (RunEvent e) cfg = Inr td
     \<and> all_spans td = [rootSpan]
     \<and> span_TraceID rootSpan =
         take 16 (sha256_Sum256 (bytes (decimal (run_ID (WorkflowRun e))
            @ decimal (run_RunAttempt (WorkflowRun e)) @ ''t'')))
     \<and> span_SpanID rootSpan =
         take 8 (drop 8 (sha256_Sum256 (bytes (decimal (run_ID (WorkflowRun e))
            @ decimal (run_RunAttempt (WorkflowRun e)) @ ''s''))))"
proof -
  obtain rootSpan where
    "eventToTraces hex_Decode rnd (RunEvent e) cfg
       = Inr [\<lparr>Resource = createResourceAttributes [] (RunEvent e) cfg,
               ScopeSpansOf = [emptyScopeSpans, \<lparr>Spans = [rootSpan]\<rparr>]\<rparr>]"
    "span_TraceID rootSpan = take 16 (sha256_Sum256 (bytes (decimal (run_ID (WorkflowRun e))
            @ decimal (run_RunAttempt (WorkflowRun e)) @ ''t'')))"
    "span_SpanID rootSpan = take 8 (drop 8 (sha256_Sum256 (bytes (decimal (run_ID (WorkflowRun e))
            @ decimal (run_RunAttempt (WorkflowRun e)) @ ''s''))))"
    using eventToTraces_run_completed [OF assms, of rnd cfg] by blast
  then show ?thesis
    by (simp add: all_spans_def emptyScopeSpans_def)
qed

lemma example_inputs_decimal:
  "decimal 12345 @ decimal 1 @ ''t'' = ''123451t''"
  "decimal 12345 @ decimal 1 @ ''build'' = ''123451build''"
  "decimal 7 @ decimal 1 @ ''build'' = ''71build''"
  by (simp_all add: decimal_def digits.simps)

lemma sha256_123451t:
  "sha256_Sum256 (bytes ''123451t'') =
     [0x5c, 0x89, 0xa9, 0xce, 0x56, 0x39, 0x7a, 0xce, 0x4b, 0x0f, 0xd1, 0xe7, 0xc1, 0xe4, 0x58, 0xa5,
      0x3f, 0x6f, 0xc5, 0x30, 0x57, 0x91, 0xdb, 0x73, 0x2a, 0x50, 0xfb, 0x08, 0x75, 0x00, 0x21, 0x37]"
  by code_simp

lemma sha256_71build:
  "sha256_Sum256 (bytes ''71build'') =
     [0xa9, 0xc5, 0x0a, 0x03, 0xb9, 0x0d, 0x76, 0x16, 0x94, 0xd7, 0xd2, 0xff, 0xec, 0x0c, 0x2b, 0x50,
      0x16, 0xe8, 0xbd, 0x4b, 0x0f, 0x0b, 0x54, 0xaf, 0xcf, 0xeb, 0xf1, 0xb7, 0x29, 0x18, 0x08, 0x77]"
  by code_simp

lemma sha256_123451build:
  "sha256_Sum256 (bytes ''123451build'') =
     [0xe4, 0x08, 0x0b, 0x2f, 0x2e, 0xa4, 0x41, 0x71, 0x38, 0x75, 0x21, 0x1f, 0x3f, 0x44, 0xe5, 0x3f,
      0x41, 0x2b, 0x09, 0xcf, 0x12, 0x19, 0x58, 0x9d, 0x2f, 0x3d, 0xd1, 0x3a, 0xe2, 0xb3, 0xb7, 0x7f]"
  by code_simp

section \<open>The two verifiers\<close>

lemma validateSignatureSHA256_total:
  "validateSignatureSHA256 secret signatureHeader body =
     Inr (7 \<le> length signatureHeader
          \<and> drop 7 signatureHeader = hex_EncodeToString (hmac_Sum sha256_Sum256 (bytes secret) body))"
  by (auto simp: validateSignatureSHA256_def slice_from_def hmac_Equal_def Let_def)

lemma validateSignatureSHA256_short:
  "length signatureHeader < 7 \<Longrightarrow> validateSignatureSHA256 secret signatureHeader body = Inr False"
  by (simp add: validateSignatureSHA256_total)

lemma validateSignatureSHA1_guarded:
  "signatureHeader = [] \<or> 5 \<le> length signatureHeader \<Longrightarrow>
     validateSignatureSHA1 secret signatureHeader body =
       Inr (signatureHeader \<noteq> []
            \<and> drop 5 signatureHeader = hex_EncodeToString (hmac_Sum sha1_Sum (bytes secret) body))"
  by (auto simp: validateSignatureSHA1_def slice_from_def hmac_Equal_def Let_def)

lemma validateSignatureSHA1_short:
  "signatureHeader \<noteq> [] \<Longrightarrow> length signatureHeader < 5 \<Longrightarrow>
     validateSignatureSHA1 secret signatureHeader body = Inl (Panic ''slice bounds out of range'')"
  by (simp add: validateSignatureSHA1_def slice_from_def)

lemma slice_trace_hex:
  "slice_range 0 32 (hex_EncodeToString (sha256_Sum256 m))
     = Inr (hex_EncodeToString (take 16 (sha256_Sum256 m)))"
  using slice_hex_EncodeToString [of 16 "sha256_Sum256 m" 0]
  by (simp add: length_sha256_Sum256)

lemma slice_span_hex:
  "slice_range 16 32 (hex_EncodeToString (sha256_Sum256 m))
     = Inr (hex_EncodeToString (take 8 (drop 8 (sha256_Sum256 m))))"
  using slice_hex_EncodeToString [of 16 "sha256_Sum256 m" 8]
  by (simp add: length_sha256_Sum256)

lemma length_hmac_sha1_hex:
  "length (hex_EncodeToString (hmac_Sum sha1_Sum key body)) = 40"
  by (simp add: hmac_Sum_def Let_def length_hex_EncodeToString length_sha1_Sum)

lemma length_hmac_sha256_hex:
  "length (hex_EncodeToString (hmac_Sum sha256_Sum256 key body)) = 64"
  by (simp add: hmac_Sum_def Let_def length_hex_EncodeToString length_sha256_Sum256)

lemma hmac_sha256_example:
  "hex_EncodeToString (hmac_Sum sha256_Sum256 (bytes ''s3cr3t'') (bytes example_body))
     = ''8dd3be6134e78689348fb00ed5cc1d99d5507019cec15a6eb04c9dfc0e4677fb''"
  by code_simp

lemma deliver_example:
  "deliver example_body_json hex_Decode no_random example_receiver (bytes example_body)
     = Status StatusAccepted"
proof -
  have "job_Status (WorkflowJob example_body_job_event) \<noteq> ''completed''"
    by (simp add: example_body_job_event_def)
  then have "\<exists>td. eventToTraces hex_Decode no_random (JobEvent example_body_job_event)
      (config example_receiver) = Inr td"
    by (simp add: eventToTraces_job_not_completed)
  then show ?thesis
    by (auto simp: deliver_def UnmarshalTraces_def example_body_json_def example_receiver_def)
qed

section \<open>The claims\<close>

text \<open>
  C1. The span identifier of the job span is said to be bytes 8 to 15 of the SHA-256
  digest of the run identifier, the run attempt (both in decimal) and the job name.
  \<^verbatim>\<open>createParentSpan\<close> passes \<^verbatim>\<open>job.ID\<close>, not \<^verbatim>\<open>job.RunID\<close>, to
  \<^verbatim>\<open>generateJobSpanID\<close>: for the completed job with identifier 7 of run 12345,
  attempt 1, named \<open>build\<close>, the span identifier comes from the digest of \<open>71build\<close>
  and differs from the one that the digest of \<open>123451build\<close> gives.
\<close>

theorem C1_job_span_id_reads_job_ID:
  "\<exists>td jobSpan.
     eventToTraces hex_Decode no_random (JobEvent (example_job_event ''completed'' [])) example_config
       = Inr td
     \<and> all_spans td = [jobSpan]
     \<and> span_SpanID jobSpan = take 8 (drop 8 (sha256_Sum256 (bytes ''71build'')))
     \<and> span_SpanID jobSpan = [0x94, 0xd7, 0xd2, 0xff, 0xec, 0x0c, 0x2b, 0x50]
     \<and> take 8 (drop 8 (sha256_Sum256 (bytes (decimal 12345 @ decimal 1 @ ''build''))))
         = [0x38, 0x75, 0x21, 0x1f, 0x3f, 0x44, 0xe5, 0x3f]"
proof -
  let ?e = "example_job_event ''completed'' []"
  have completed: "job_Status (WorkflowJob ?e) = ''completed''"
    by (simp add: example_job_event_def example_job_def)
  have input: "decimal (job_ID (WorkflowJob ?e)) @ decimal (job_RunAttempt (WorkflowJob ?e))
      @ job_Name (WorkflowJob ?e) = ''71build''"
    by (simp add: example_job_event_def example_job_def example_inputs_decimal)
  have no_steps: "job_Steps (WorkflowJob ?e) = []"
    by (simp add: example_job_event_def example_job_def)
  obtain td jobSpan stepSpans where
    "eventToTraces hex_Decode no_random (JobEvent ?e) example_config = Inr td"
    "all_spans td = jobSpan # stepSpans" "length stepSpans = 0"
    "span_SpanID jobSpan = take 8 (drop 8 (sha256_Sum256 (bytes ''71build'')))"
    using job_event_completed_spans [OF completed, of no_random example_config]
    unfolding input no_steps by auto
  then show ?thesis
    by (simp add: sha256_71build sha256_123451build example_inputs_decimal)
qed

text \<open>
  C2. Signature verification returns a boolean for every secret, body and header, and
  a header that is present but shorter than the prefix of its scheme verifies false.
  The SHA-256 verifier does so. The SHA-1 verifier does not test the length before it
  takes \<^verbatim>\<open>signatureHeader[5:]\<close>: on a header of one to four characters it panics.
\<close>

theorem C2_sha1_short_header_panics:
  "validateSignatureSHA1 ''s3cr3t'' ''sha1'' (bytes ''payload'') = Inl (Panic ''slice bounds out of range'')
   \<and> validateSignatureSHA256 ''s3cr3t'' ''sha256'' (bytes ''payload'') = Inr False"
  by (simp add: validateSignatureSHA1_def validateSignatureSHA256_def slice_from_def)

text \<open>
  C3. For every completed job with step list \<open>steps\<close>, the status code of the job span
  is \<open>Error\<close> if some step has the conclusion \<open>failure\<close>; otherwise \<open>Ok\<close> if every
  step has the status \<open>completed\<close> and the conclusion \<open>success\<close>; otherwise \<open>Unset\<close>.
  The job span is the span that \<^const>\<open>createParentSpan\<close> appends.
\<close>

theorem C3_job_span_status:
  "\<exists>scopeSpans' jobSpanID.
     createParentSpan hex_Decode scopeSpans steps job traceID = Inr (scopeSpans', jobSpanID)
     \<and> span_StatusCode (last (Spans scopeSpans')) =
         (if list_ex (\<lambda>step. step_Conclusion step = ''failure'') steps then StatusCodeError
          else if list_all (\<lambda>step. step_Status step = ''completed'' \<and> step_Conclusion step = ''success'') steps
          then StatusCodeOk
          else StatusCodeUnset)"
proof -
  obtain span where
    "createParentSpan hex_Decode scopeSpans steps job traceID
       = Inr (scopeSpans\<lparr>Spans := Spans scopeSpans @ [span]\<rparr>, span_SpanID span)"
    "span_StatusCode span =
       (if list_ex (\<lambda>step. step_Conclusion step = ''failure'') steps then StatusCodeError
        else if list_all (\<lambda>step. step_Status step = ''completed'' \<and> step_Conclusion step = ''success'') steps
        then StatusCodeOk else StatusCodeUnset)"
    using createParentSpan_hex_Decode [of scopeSpans steps job traceID] by blast
  then show ?thesis by simp
qed

theorem C3_job_span_status_witness:
  "(\<exists>scopeSpans' jobSpanID.
      createParentSpan hex_Decode emptyScopeSpans
        [example_step ''checkout'' ''success'', example_step ''build'' ''success'']
        (example_job ''completed'' [example_step ''checkout'' ''success'', example_step ''build'' ''success''])
        zeroTraceID = Inr (scopeSpans', jobSpanID)
      \<and> span_StatusCode (last (Spans scopeSpans')) = StatusCodeOk)
   \<and> (\<exists>scopeSpans' jobSpanID.
      createParentSpan hex_Decode emptyScopeSpans
        [example_step ''checkout'' ''success'', example_step ''build'' ''failure'']
        (example_job ''completed'' [example_step ''checkout'' ''success'', example_step ''build'' ''failure''])
        zeroTraceID = Inr (scopeSpans', jobSpanID)
      \<and> span_StatusCode (last (Spans scopeSpans')) = StatusCodeError)
   \<and> (\<exists>scopeSpans' jobSpanID.
      createParentSpan hex_Decode emptyScopeSpans
        [example_step ''checkout'' ''success'', example_step ''build'' ''skipped'']
        (example_job ''completed'' [example_step ''checkout'' ''success'', example_step ''build'' ''skipped''])
        zeroTraceID = Inr (scopeSpans', jobSpanID)
      \<and> span_StatusCode (last (Spans scopeSpans')) = StatusCodeUnset)"
  using
    C3_job_span_status [of emptyScopeSpans
      "[example_step ''checkout'' ''success'', example_step ''build'' ''success'']"
      "example_job ''completed'' [example_step ''checkout'' ''success'', example_step ''build'' ''success'']"
      zeroTraceID]
    C3_job_span_status [of emptyScopeSpans
      "[example_step ''checkout'' ''success'', example_step ''build'' ''failure'']"
      "example_job ''completed'' [example_step ''checkout'' ''success'', example_step ''build'' ''failure'']"
      zeroTraceID]
    C3_job_span_status [of emptyScopeSpans
      "[example_step ''checkout'' ''success'', example_step ''build'' ''skipped'']"
      "example_job ''completed'' [example_step ''checkout'' ''success'', example_step ''build'' ''skipped'']"
      zeroTraceID]
  by (simp add: example_step_def)

text \<open>
  C4. On the job path and on the run path the trace identifier is the same function
  of the run identifier and the run attempt: the first sixteen bytes of the SHA-256
  digest of the two numbers in decimal followed by the letter \<open>t\<close>. A job event and
  a run event that agree on both numbers therefore yield spans with one and the same
  trace identifier; a completed job gives one span more than it has steps, a completed
  run gives one span.
\<close>

theorem C4_trace_id_shared:
  assumes "job_RunID (WorkflowJob je) = run_ID (WorkflowRun re)"
    and "job_RunAttempt (WorkflowJob je) = run_RunAttempt (WorkflowRun re)"
    and "job_Status (WorkflowJob je) = ''completed''"
    and "run_Status (WorkflowRun re) = ''completed''"
  shows "\<exists>tdj tdr.
     eventToTraces hex_Decode rnd (JobEvent je) cfg = Inr tdj
     \<and> eventToTraces hex_Decode rnd' (RunEvent re) cfg' = Inr tdr
     \<and> length (all_spans tdj) = Suc (length (job_Steps (WorkflowJob je)))
     \<and> length (all_spans tdr) = 1
     \<and> list_all (\<lambda>s. span_TraceID s =
           take 16 (sha256_Sum256 (bytes (decimal (run_ID (WorkflowRun re))
              @ decimal (run_RunAttempt (WorkflowRun re)) @ ''t''))))
         (all_spans tdj @ all_spans tdr)"
proof -
  let ?tid = "take 16 (sha256_Sum256 (bytes (decimal (run_ID (WorkflowRun re))
              @ decimal (run_RunAttempt (WorkflowRun re)) @ ''t'')))"
  obtain tdj jobSpan stepSpans where job:
    "eventToTraces hex_Decode rnd (JobEvent je) cfg = Inr tdj"
    "all_spans tdj = jobSpan # stepSpans"
    "length stepSpans = length (job_Steps (WorkflowJob je))"
    "span_TraceID jobSpan = ?tid"
    "list_all (\<lambda>s. span_TraceID s = span_TraceID jobSpan
                      \<and> span_ParentSpanID s = span_SpanID jobSpan) stepSpans"
    using job_event_completed_spans [OF assms(3), of rnd cfg] assms(1,2) by auto
  obtain tdr rootSpan where run:
    "eventToTraces hex_Decode rnd' (RunEvent re) cfg' = Inr tdr"
    "all_spans tdr = [rootSpan]"
    "span_TraceID rootSpan = ?tid"
    using run_event_completed_spans [OF assms(4), of rnd' cfg'] by blast
  have "list_all (\<lambda>s. span_TraceID s = ?tid) stepSpans"
    using job(4,5) by (simp add: list_all_iff)
  then show ?thesis
    using job(1-4) run by simp
qed

theorem C4_trace_id_shared_witness:
  "job_RunID (WorkflowJob (example_job_event ''completed'' [example_step ''build'' ''success'']))
     = run_ID (WorkflowRun (example_run_event ''completed''))
   \<and> job_RunAttempt (WorkflowJob (example_job_event ''completed'' [example_step ''build'' ''success'']))
     = run_RunAttempt (WorkflowRun (example_run_event ''completed''))
   \<and> (\<exists>tdj tdr.
        eventToTraces hex_Decode no_random
          (JobEvent (example_job_event ''completed'' [example_step ''build'' ''success''])) example_config
          = Inr tdj
        \<and> eventToTraces hex_Decode no_random (RunEvent (example_run_event ''completed'')) example_config
          = Inr tdr
        \<and> length (all_spans tdj) = 2
        \<and> length (all_spans tdr) = 1
        \<and> list_all (\<lambda>s. span_TraceID s = take 16 (sha256_Sum256 (bytes ''123451t'')))
             (all_spans tdj @ all_spans tdr)
        \<and> take 16 (sha256_Sum256 (bytes ''123451t''))
             = [0x5c, 0x89, 0xa9, 0xce, 0x56, 0x39, 0x7a, 0xce,
                0x4b, 0x0f, 0xd1, 0xe7, 0xc1, 0xe4, 0x58, 0xa5])"
proof -
  let ?je = "example_job_event ''completed'' [example_step ''build'' ''success'']"
  let ?re = "example_run_event ''completed''"
  have ids: "job_RunID (WorkflowJob ?je) = run_ID (WorkflowRun ?re)"
    "job_RunAttempt (WorkflowJob ?je) = run_RunAttempt (WorkflowRun ?re)"
    and completed: "job_Status (WorkflowJob ?je) = ''completed''"
      "run_Status (WorkflowRun ?re) = ''completed''"
    by (simp_all add: example_job_event_def example_job_def example_run_event_def example_run_def)
  have input: "decimal (run_ID (WorkflowRun ?re)) @ decimal (run_RunAttempt (WorkflowRun ?re)) @ ''t''
      = ''123451t''"
    by (simp add: example_run_event_def example_run_def example_inputs_decimal)
  have steps: "length (job_Steps (WorkflowJob ?je)) = 1"
    by (simp add: example_job_event_def example_job_def)
  show ?thesis
    using ids
      C4_trace_id_shared [OF ids completed, of no_random example_config no_random example_config]
    unfolding input steps
    by (simp add: sha256_123451t numeral_2_eq_2)
qed

text \<open>
  C5, as stated: when the SHA-256 header is present, the SHA-256 verification alone
  decides and the SHA-1 header is not consulted. Two requests with the same body, which
  decodes, and the same valid SHA-256 header, one with no SHA-1 header and one with a
  SHA-1 header that does not match, are answered differently: 202 and 401.
\<close>

theorem C5_sha1_header_consulted:
  "validateSignatureSHA256 (Secret (config example_receiver))
       ''sha256=8dd3be6134e78689348fb00ed5cc1d99d5507019cec15a6eb04c9dfc0e4677fb'' (bytes example_body)
     = Inr True
   \<and> ServeHTTP example_body_json hex_Decode no_random example_receiver
       (example_request ''sha256=8dd3be6134e78689348fb00ed5cc1d99d5507019cec15a6eb04c9dfc0e4677fb'' [])
     = Status StatusAccepted
   \<and> ServeHTTP example_body_json hex_Decode no_random example_receiver
       (example_request ''sha256=8dd3be6134e78689348fb00ed5cc1d99d5507019cec15a6eb04c9dfc0e4677fb''
          ''sha1=deadbeef'')
     = Status StatusUnauthorized"
proof -
  have secret: "Secret (config example_receiver) = ''s3cr3t''"
    by (simp add: example_receiver_def example_config_def)
  have valid: "validateSignatureSHA256 ''s3cr3t''
      ''sha256=8dd3be6134e78689348fb00ed5cc1d99d5507019cec15a6eb04c9dfc0e4677fb'' (bytes example_body)
      = Inr True"
    by (simp add: validateSignatureSHA256_total hmac_sha256_example)
  have "length (drop 5 ''sha1=deadbeef'') \<noteq>
      length (hex_EncodeToString (hmac_Sum sha1_Sum (bytes ''s3cr3t'') (bytes example_body)))"
    by (simp add: length_hmac_sha1_hex)
  then have "drop 5 ''sha1=deadbeef'' \<noteq>
      hex_EncodeToString (hmac_Sum sha1_Sum (bytes ''s3cr3t'') (bytes example_body))"
    by metis
  then have mismatch:
    "validateSignatureSHA1 ''s3cr3t'' ''sha1=deadbeef'' (bytes example_body) = Inr False"
    by (simp add: validateSignatureSHA1_guarded)
  have path: "Path (config example_receiver) = ''/events''"
    by (simp add: example_receiver_def example_config_def)
  show ?thesis
    by (simp add: ServeHTTP_def example_request_def strings_HasPrefix_def secret path valid mismatch
          deliver_example StatusAccepted_def StatusUnauthorized_def)
qed

text \<open>
  C5, amended. When a secret is configured, the SHA-256 header is checked first: a
  request whose SHA-256 header is present and does not verify is rejected as
  unauthorized whatever its SHA-1 header is, also one shorter than its prefix. In every
  other case (no SHA-256 header, or one that verifies) a SHA-1 header that is present
  and has at least the five characters of its prefix is verified as well, and a mismatch
  rejects the request; a request that passes it, or has no SHA-1 header, is decoded and
  delivered. Nothing is said of a SHA-1 header of one to four characters that reaches
  the second check.
\<close>

theorem C5_signature_order:
  assumes "strings_HasPrefix (UserAgent r) ''GitHub-Hookshot''"
    and "URLPath r = Path (config gaer)"
    and "Body r = Inr slurp"
    and "Secret (config gaer) \<noteq> []"
  shows "(XHubSignature256 r \<noteq> []
            \<and> validateSignatureSHA256 (Secret (config gaer)) (XHubSignature256 r) slurp = Inr False
          \<longrightarrow> ServeHTTP json dec rnd gaer r = Status StatusUnauthorized)
     \<and> (\<not> (XHubSignature256 r \<noteq> []
               \<and> validateSignatureSHA256 (Secret (config gaer)) (XHubSignature256 r) slurp = Inr False)
            \<and> (XHubSignature r = [] \<or> 5 \<le> length (XHubSignature r))
          \<longrightarrow> ServeHTTP json dec rnd gaer r =
                (if XHubSignature r \<noteq> []
                    \<and> validateSignatureSHA1 (Secret (config gaer)) (XHubSignature r) slurp = Inr False
                 then Status StatusUnauthorized
                 else deliver json dec rnd gaer slurp))"
proof (intro conjI impI)
  assume "XHubSignature256 r \<noteq> []
    \<and> validateSignatureSHA256 (Secret (config gaer)) (XHubSignature256 r) slurp = Inr False"
  then show "ServeHTTP json dec rnd gaer r = Status StatusUnauthorized"
    using assms by (simp add: ServeHTTP_def)
next
  assume second: "\<not> (XHubSignature256 r \<noteq> []
      \<and> validateSignatureSHA256 (Secret (config gaer)) (XHubSignature256 r) slurp = Inr False)
    \<and> (XHubSignature r = [] \<or> 5 \<le> length (XHubSignature r))"
  obtain ok256 where v256:
    "validateSignatureSHA256 (Secret (config gaer)) (XHubSignature256 r) slurp = Inr ok256"
    by (simp add: validateSignatureSHA256_total)
  obtain ok1 where v1:
    "validateSignatureSHA1 (Secret (config gaer)) (XHubSignature r) slurp = Inr ok1"
    using second validateSignatureSHA1_guarded [of "XHubSignature r"] by simp
  show "ServeHTTP json dec rnd gaer r =
      (if XHubSignature r \<noteq> []
          \<and> validateSignatureSHA1 (Secret (config gaer)) (XHubSignature r) slurp = Inr False
       then Status StatusUnauthorized
       else deliver json dec rnd gaer slurp)"
    using assms second by (cases ok256; cases ok1; simp add: ServeHTTP_def v256 v1)
qed

theorem C5_signature_order_witness:
  "ServeHTTP example_body_json hex_Decode no_random example_receiver
       (example_request ''sha256=00'' ''sha1'') = Status StatusUnauthorized
   \<and> ServeHTTP example_body_json hex_Decode no_random example_receiver
       (example_request ''sha256=8dd3be6134e78689348fb00ed5cc1d99d5507019cec15a6eb04c9dfc0e4677fb''
          ''sha1=deadbeef'') = Status StatusUnauthorized
   \<and> ServeHTTP example_body_json hex_Decode no_random example_receiver
       (example_request ''sha256=8dd3be6134e78689348fb00ed5cc1d99d5507019cec15a6eb04c9dfc0e4677fb'' [])
       = Status StatusAccepted"
proof -
  let ?valid = "''sha256=8dd3be6134e78689348fb00ed5cc1d99d5507019cec15a6eb04c9dfc0e4677fb''"
  have request: "strings_HasPrefix (UserAgent (example_request s256 s1)) ''GitHub-Hookshot''"
    "URLPath (example_request s256 s1) = Path (config example_receiver)"
    "Body (example_request s256 s1) = Inr (bytes example_body)"
    "XHubSignature256 (example_request s256 s1) = s256"
    "XHubSignature (example_request s256 s1) = s1" for s256 s1
    by (simp_all add: example_request_def example_receiver_def example_config_def
          strings_HasPrefix_def)
  have secret: "Secret (config example_receiver) \<noteq> []"
    and secret_eq: "Secret (config example_receiver) = ''s3cr3t''"
    by (simp_all add: example_receiver_def example_config_def)
  have "length (drop 7 ''sha256=00'') \<noteq>
      length (hex_EncodeToString (hmac_Sum sha256_Sum256 (bytes ''s3cr3t'') (bytes example_body)))"
    by (simp add: length_hmac_sha256_hex)
  then have "drop 7 ''sha256=00'' \<noteq>
      hex_EncodeToString (hmac_Sum sha256_Sum256 (bytes ''s3cr3t'') (bytes example_body))"
    by metis
  then have rejected:
    "validateSignatureSHA256 ''s3cr3t'' ''sha256=00'' (bytes example_body) = Inr False"
    by (simp add: validateSignatureSHA256_total)
  have valid: "validateSignatureSHA256 ''s3cr3t'' ?valid (bytes example_body) = Inr True"
    by (simp add: validateSignatureSHA256_total hmac_sha256_example)
  have "length (drop 5 ''sha1=deadbeef'') \<noteq>
      length (hex_EncodeToString (hmac_Sum sha1_Sum (bytes ''s3cr3t'') (bytes example_body)))"
    by (simp add: length_hmac_sha1_hex)
  then have "drop 5 ''sha1=deadbeef'' \<noteq>
      hex_EncodeToString (hmac_Sum sha1_Sum (bytes ''s3cr3t'') (bytes example_body))"
    by metis
  then have mismatch:
    "validateSignatureSHA1 ''s3cr3t'' ''sha1=deadbeef'' (bytes example_body) = Inr False"
    by (simp add: validateSignatureSHA1_guarded)
  show ?thesis
    using
      C5_signature_order [OF request(1-3) secret,
        of "''sha256=00''" "''sha1''" example_body_json hex_Decode no_random]
      C5_signature_order [OF request(1-3) secret,
        of ?valid "''sha1=deadbeef''" example_body_json hex_Decode no_random]
      C5_signature_order [OF request(1-3) secret,
        of ?valid "[]" example_body_json hex_Decode no_random]
    by (simp add: request secret_eq rejected valid mismatch deliver_example)
qed



text \<open>
  C7. For every job event whose job status is not \<open>completed\<close>, the conversion
  succeeds and returns a trace whose resource carries all twelve attributes of a job,
  the service name among them, and which holds no span.
\<close>

theorem C7_incomplete_job_no_spans:
  assumes "job_Status (WorkflowJob e) \<noteq> ''completed''"
  shows "\<exists>td serviceName. eventToTraces hex_Decode rnd (JobEvent e) cfg = Inr td
     \<and> map Resource td =
        [[(''service.name'', ValueStr serviceName),
          (''ci.system'', ValueStr ''github''),
          (''ci.actor'', ValueStr (Login (Owner (job_Repository e)))),
          (''ci.github.job'', ValueStr (job_Name (WorkflowJob e))),
          (''ci.github.run_id'', ValueInt (job_RunID (WorkflowJob e))),
          (''ci.github.run_attempt'', ValueInt (job_RunAttempt (WorkflowJob e))),
          (''ci.github.runner.name'', ValueStr (job_RunnerName (WorkflowJob e))),
          (''ci.github.workflow'', ValueStr (job_WorkflowName (WorkflowJob e))),
          (''scm.system'', ValueStr ''git''),
          (''scm.git.branch'', ValueStr (job_HeadBranch (WorkflowJob e))),
          (''scm.git.sha'', ValueStr (job_HeadSha (WorkflowJob e))),
          (''scm.git.repo'', ValueStr (FullName (job_Repository e)))]]
     \<and> all_spans td = [] \<and> SpanCount td = 0"
  using eventToTraces_job_not_completed [OF assms, of rnd cfg]
  by (simp add: createResourceAttributes_job all_spans_def SpanCount_def emptyScopeSpans_def)

theorem C7_incomplete_job_no_spans_witness:
  "job_Status (WorkflowJob (example_job_event ''in_progress'' [])) \<noteq> ''completed''
   \<and> (\<exists>td serviceName. eventToTraces hex_Decode no_random
              (JobEvent (example_job_event ''in_progress'' [])) example_config = Inr td
         \<and> map Resource td =
            [[(''service.name'', ValueStr serviceName),
              (''ci.system'', ValueStr ''github''),
              (''ci.actor'', ValueStr ''octocat''),
              (''ci.github.job'', ValueStr ''build''),
              (''ci.github.run_id'', ValueInt 12345),
              (''ci.github.run_attempt'', ValueInt 1),
              (''ci.github.runner.name'', ValueStr ''runner-1''),
              (''ci.github.workflow'', ValueStr ''CI''),
              (''scm.system'', ValueStr ''git''),
              (''scm.git.branch'', ValueStr ''main''),
              (''scm.git.sha'', ValueStr ''0123abc''),
              (''scm.git.repo'', ValueStr ''Org/Repo_Name'')]]
         \<and> all_spans td = [] \<and> SpanCount td = 0)"
proof -
  have incomplete: "job_Status (WorkflowJob (example_job_event ''in_progress'' [])) \<noteq> ''completed''"
    by (simp add: example_job_event_def example_job_def)
  show ?thesis
    using incomplete C7_incomplete_job_no_spans [OF incomplete, of no_random example_config]
    by (simp add: example_job_event_def example_job_def example_repository_def)
qed

text \<open>
  C8. For every payload whose top-level object has both a \<open>workflow_job\<close> and a
  \<open>workflow_run\<close> key, the payload is treated as a job event: the result is that of
  the job branch, and the decoding into a run event is not called, so that the result does
  not depend on it.
\<close>

theorem C8_job_key_takes_precedence:
  assumes "unmarshalMap json blob = Inr event"
    and "event ''workflow_job'' = Some rawJob"
    and "event ''workflow_run'' = Some rawRun"
  shows "UnmarshalTraces json dec rnd blob cfg =
           (case unmarshalJobEvent json blob of
              Inl err \<Rightarrow> Inl err
            | Inr jobEvent \<Rightarrow> eventToTraces dec rnd (JobEvent jobEvent) cfg)
     \<and> UnmarshalTraces (json\<lparr>unmarshalRunEvent := decodeRun\<rparr>) dec rnd blob cfg
           = UnmarshalTraces json dec rnd blob cfg"
  using assms by (simp add: UnmarshalTraces_def split: sum.splits)

theorem C8_job_key_takes_precedence_witness:
  "unmarshalMap example_json (bytes ''payload'')
     = Inr [''workflow_job'' \<mapsto> bytes ''{}'', ''workflow_run'' \<mapsto> bytes ''{}'']
   \<and> [''workflow_job'' \<mapsto> bytes ''{}'', ''workflow_run'' \<mapsto> bytes ''{}''] ''workflow_job''
       = Some (bytes ''{}'')
   \<and> [''workflow_job'' \<mapsto> bytes ''{}'', ''workflow_run'' \<mapsto> bytes ''{}''] ''workflow_run''
       = Some (bytes ''{}'')
   \<and> UnmarshalTraces example_json hex_Decode no_random (bytes ''payload'') example_config
       = eventToTraces hex_Decode no_random (JobEvent (example_job_event ''in_progress'' [])) example_config
   \<and> UnmarshalTraces (example_json\<lparr>unmarshalRunEvent := (\<lambda>blob. Inl (UnmarshalError ''unexpected''))\<rparr>)
         hex_Decode no_random (bytes ''payload'') example_config
       = UnmarshalTraces example_json hex_Decode no_random (bytes ''payload'') example_config"
proof -
  let ?event = "[''workflow_job'' \<mapsto> bytes ''{}'', ''workflow_run'' \<mapsto> bytes ''{}'']"
  have top: "unmarshalMap example_json (bytes ''payload'') = Inr ?event"
    and job: "?event ''workflow_job'' = Some (bytes ''{}'')"
    and run: "?event ''workflow_run'' = Some (bytes ''{}'')"
    by (simp_all add: example_json_def)
  have decoded: "unmarshalJobEvent example_json (bytes ''payload'') = Inr (example_job_event ''in_progress'' [])"
    by (simp add: example_json_def)
  show ?thesis
    using top job run
      C8_job_key_takes_precedence [OF top job run, of hex_Decode no_random example_config
        "\<lambda>blob. Inl (UnmarshalError ''unexpected'')"]
    by (simp add: decoded)
qed

text \<open>
  C9. For every run event whose run status is not \<open>completed\<close>, the conversion succeeds
  and returns a trace with no span and with an empty set of resource attributes: on the
  run path the attributes are put only for a completed run.
\<close>

theorem C9_incomplete_run_empty_resource:
  assumes "run_Status (WorkflowRun e) \<noteq> ''completed''"
  shows "\<exists>td. eventToTraces hex_Decode rnd (RunEvent e) cfg = Inr td
     \<and> map Resource td = [[]] \<and> all_spans td = [] \<and> SpanCount td = 0"
  using eventToTraces_run_not_completed [OF assms, of rnd cfg]
  by (simp add: all_spans_def SpanCount_def emptyScopeSpans_def)

theorem C9_incomplete_run_empty_resource_witness:
  "run_Status (WorkflowRun (example_run_event ''in_progress'')) \<noteq> ''completed''
   \<and> (\<exists>td. eventToTraces hex_Decode no_random
              (RunEvent (example_run_event ''in_progress'')) example_config = Inr td
         \<and> map Resource td = [[]] \<and> all_spans td = [] \<and> SpanCount td = 0)"
proof -
  have incomplete: "run_Status (WorkflowRun (example_run_event ''in_progress'')) \<noteq> ''completed''"
    by (simp add: example_run_event_def example_run_def)
  show ?thesis
    using incomplete C9_incomplete_run_empty_resource [OF incomplete, of no_random example_config]
    by simp
qed

text \<open>
  C10. For every completed job event whose list of steps is empty, the trace holds
  exactly one span, the job span; its status code is \<open>Ok\<close> and its time range is
  from the job's \<open>CreatedAt\<close> to its \<open>CompletedAt\<close>.
\<close>

theorem C10_completed_job_without_steps:
  assumes "job_Status (WorkflowJob e) = ''completed''" and "job_Steps (WorkflowJob e) = []"
  shows "\<exists>td span. eventToTraces hex_Decode rnd (JobEvent e) cfg = Inr td
     \<and> all_spans td = [span] \<and> SpanCount td = 1
     \<and> span_StatusCode span = StatusCodeOk
     \<and> span_StartTimestamp span = job_CreatedAt (WorkflowJob e)
     \<and> span_EndTimestamp span = job_CompletedAt (WorkflowJob e)
     \<and> span_Name span = job_Name (WorkflowJob e)"
proof -
  let ?tid = "take 16 (sha256_Sum256 (bytes (decimal (job_RunID (WorkflowJob e))
            @ decimal (job_RunAttempt (WorkflowJob e)) @ ''t'')))"
  obtain span where parent:
    "createParentSpan hex_Decode emptyScopeSpans [] (WorkflowJob e) ?tid
       = Inr (emptyScopeSpans\<lparr>Spans := Spans emptyScopeSpans @ [span]\<rparr>, span_SpanID span)"
    and fields: "span_StatusCode span = StatusCodeOk"
      "span_StartTimestamp span = job_CreatedAt (WorkflowJob e)"
      "span_EndTimestamp span = job_CompletedAt (WorkflowJob e)"
      "span_Name span = job_Name (WorkflowJob e)"
    using createParentSpan_hex_Decode [of emptyScopeSpans "[]" "WorkflowJob e" ?tid]
    by auto
  have "eventToTraces hex_Decode rnd (JobEvent e) cfg
      = Inr [\<lparr>Resource = createResourceAttributes [] (JobEvent e) cfg,
              ScopeSpansOf = [\<lparr>Spans = [span]\<rparr>]\<rparr>]"
    using assms parent
    by (simp add: eventToTraces.simps generateTraceID_hex_Decode Let_def emptyScopeSpans_def)
  then show ?thesis
    using fields by (simp add: all_spans_def SpanCount_def)
qed

theorem C10_completed_job_without_steps_witness:
  "job_Status (WorkflowJob (example_job_event ''completed'' [])) = ''completed''
   \<and> job_Steps (WorkflowJob (example_job_event ''completed'' [])) = []
   \<and> (\<exists>td span. eventToTraces hex_Decode no_random
                   (JobEvent (example_job_event ''completed'' [])) example_config = Inr td
         \<and> all_spans td = [span] \<and> SpanCount td = 1
         \<and> span_StatusCode span = StatusCodeOk
         \<and> span_StartTimestamp span = 1699999990000000000
         \<and> span_EndTimestamp span = 1700000020000000000
         \<and> span_Name span = ''build'')"
proof -
  have completed: "job_Status (WorkflowJob (example_job_event ''completed'' [])) = ''completed''"
    and no_steps: "job_Steps (WorkflowJob (example_job_event ''completed'' [])) = []"
    by (simp_all add: example_job_event_def example_job_def)
  show ?thesis
    using completed no_steps
      C10_completed_job_without_steps [OF completed no_steps, of no_random example_config]
    by (simp add: example_job_event_def example_job_def)
qed


end
